theory Spec2Isabelle
  imports Complex_Main
begin

section \<open>Decimal arithmetic\<close>

text \<open>
  The settlement code computes with Python's \<^verbatim>\<open>decimal.Decimal\<close> under the default
  context: every arithmetic result is rounded to 28 significant digits, ties to even, and
  a division by zero raises. A \<^verbatim>\<open>Decimal\<close> is modelled by its value, a rational number;
  the four operations round their exact result with \<open>dec_fix\<close>. The exponent limits of the
  context (\<open>Emax = 999999\<close>) are out of reach of the values stored by this program and are
  not modelled.

  Values are read from the database with \<^verbatim>\<open>Decimal(str(field))\<close>; a column is modelled by the
  value that this expression yields, and a value written to a column is assumed to be read
  back unchanged.
\<close>

type_synonym decimal = rat

text \<open>\<^verbatim>\<open>len(str(n))\<close>: the number of decimal digits of a natural number.\<close>

fun ndigits :: "nat \<Rightarrow> nat" where
  "ndigits n = (if n < 10 then 1 else Suc (ndigits (n div 10)))"

declare ndigits.simps [simp del]

text \<open>\<^verbatim>\<open>ROUND_HALF_EVEN\<close> to an integer.\<close>

definition round_half_even :: "rat \<Rightarrow> int" where
  "round_half_even x =
     (let f = \<lfloor>x\<rfloor>; r = x - of_int f
      in if r < 1 / 2 then f
         else if 1 / 2 < r then f + 1
         else if even f then f else f + 1)"

text \<open>\<^verbatim>\<open>getcontext().prec\<close>, the default.\<close>

definition prec :: int where
  "prec = 28"

text \<open>
  \<^verbatim>\<open>Decimal.adjusted()\<close>: the exponent of the most significant digit, the \<open>e\<close> with
  \<open>10\<^sup>e \<le> \<bar>x\<bar> < 10\<^sup>e\<^sup>+\<^sup>1\<close>. The digit counts of numerator and denominator give it up
  to one, and a comparison settles it.
\<close>

definition adjusted :: "rat \<Rightarrow> int" where
  "adjusted x =
     (case quotient_of \<bar>x\<bar> of (p, q) \<Rightarrow>
        let k = int (ndigits (nat p)) - int (ndigits (nat q))
        in if 10 powi k \<le> \<bar>x\<bar> then k else k - 1)"

text \<open>Rounding to the context precision (\<^verbatim>\<open>Decimal._fix\<close>).\<close>

definition dec_fix :: "rat \<Rightarrow> decimal" where
  "dec_fix x =
     (if x = 0 then 0
      else let s = 10 powi (adjusted x - (prec - 1))
           in of_int (round_half_even (x / s)) * s)"

definition dadd :: "decimal \<Rightarrow> decimal \<Rightarrow> decimal" where
  "dadd a b = dec_fix (a + b)"

definition dsub :: "decimal \<Rightarrow> decimal \<Rightarrow> decimal" where
  "dsub a b = dec_fix (a - b)"

definition dmul :: "decimal \<Rightarrow> decimal \<Rightarrow> decimal" where
  "dmul a b = dec_fix (a * b)"

datatype exn =
    DivisionByZero
  | InvalidOperation
  | DoesNotExist
  | AttributeError
  | IntegrityError

text \<open>
  \<^verbatim>\<open>a / b\<close>: \<^verbatim>\<open>0 / 0\<close> signals \<^verbatim>\<open>InvalidOperation\<close>, any other division by zero
  \<^verbatim>\<open>DivisionByZero\<close>; both are trapped by the default context.
\<close>

definition ddiv :: "decimal \<Rightarrow> decimal \<Rightarrow> exn + decimal" where
  "ddiv a b =
     (if b = 0 then (if a = 0 then Inl InvalidOperation else Inl DivisionByZero)
      else Inr (dec_fix (a / b)))"

text \<open>A value that the context represents exactly: rounding leaves it unchanged.\<close>

definition exact :: "rat \<Rightarrow> bool" where
  "exact x = (dec_fix x = x)"

section \<open>Data model (models.py)\<close>

type_synonym user_id = nat

text \<open>Instants in seconds; converting an aware datetime to another zone keeps the instant.\<close>

type_synonym time = int

datatype status = PENDING | APPROVED | REJECTED | COMPLETED | IN_PROGRESS | CANCELLED

record UserPortfolio =
  balance_usd :: decimal
  is_merchant :: bool
  initial_deposit_amount :: "decimal option"
  account_number :: string
  is_frozen :: bool

record SyntheticAsset =
  symbol :: string
  price_usd :: decimal

datatype trade_kind = BUY | SELL

record Trade =
  trade_user :: user_id
  trade_asset :: nat
  trade_type :: trade_kind
  quantity :: decimal
  price_at_trade :: decimal

text \<open>
  The text of a notification is modelled by the kind of message and the values that the
  source formats into it.
\<close>

datatype message =
    Swap_profit decimal decimal decimal
  | Swap_loss decimal decimal decimal
  | Portfolio_updated
  | Swap_submitted
  | Referral_bonus user_id decimal
  | Deposit_submitted_merchant decimal
  | Deposit_submitted_user decimal
  | Deposit_approved_user decimal
  | Deposit_approved_merchant decimal decimal
  | Deposit_approved_p2p
  | Deposit_declined_user
  | Deposit_declined_merchant
  | Withdrawal_request_merchant decimal decimal
  | Withdrawal_submitted_user decimal decimal
  | Withdrawal_submitted_admin
  | Withdrawal_declined_merchant
  | Withdrawal_declined_user
  | Withdrawal_rejected decimal

record Notification =
  note_user :: user_id
  note_message :: message

text \<open>The fee annotation that \<^verbatim>\<open>deposit_funds\<close> writes into \<^verbatim>\<open>deposit_notes\<close> as JSON.\<close>

record deposit_fee_info =
  fee_percentage :: decimal
  fee_amount :: decimal
  total_amount_with_fee :: decimal
  base_amount :: decimal

record Deposit =
  dep_user :: user_id
  dep_amount :: decimal
  dep_status :: status
  dep_method :: string
  dep_transaction_id :: string
  dep_merchant :: "user_id option"
  merchant_action_required :: bool
  deposit_notes :: "deposit_fee_info option"

text \<open>The fee annotation that \<^verbatim>\<open>withdraw_funds\<close> writes into \<^verbatim>\<open>withdrawal_notes\<close>.\<close>

record withdrawal_fee_info =
  wfee_percentage :: decimal
  wfee_amount :: decimal
  user_receives :: decimal
  total_amount_processed :: decimal

datatype address =
    Bank_details string string string
  | Plain_address string

record Withdrawal =
  wd_user :: user_id
  wd_amount :: decimal
  wd_status :: status
  wd_method :: string
  to_address :: "address option"
  chain :: "string option"
  wd_merchant :: "user_id option"
  user_confirmation_required :: bool
  withdrawal_notes :: "withdrawal_fee_info option"

record Affiliate =
  referrer :: user_id
  has_funded_wallet :: bool

record SwapRequest =
  swap_user :: user_id
  from_asset :: nat
  to_asset :: nat
  swap_back_asset :: "nat option"
  swap_amount :: decimal
  swap_back_amount :: decimal
  original_to_asset_price :: decimal
  swap_time :: time
  completed_at :: "time option"
  swap_status :: status

record MerchantApplication =
  app_user :: user_id
  app_status :: status

text \<open>
  The database. Tables are maps from the primary key; \<open>affiliates\<close> is keyed by the
  referred user (a one-to-one field), \<open>portfolios\<close> by the user. The \<open>*_seq\<close> fields are
  the auto-increment counters: every key of a table is below its counter, which is how a
  query by a column other than the key enumerates the rows. \<open>staff\<close> lists the users with
  \<^verbatim>\<open>is_staff\<close> in key order.
\<close>

record db =
  user_seq :: nat
  portfolios :: "user_id \<rightharpoonup> UserPortfolio"
  assets :: "nat \<rightharpoonup> SyntheticAsset"
  asset_seq :: nat
  deposits :: "nat \<rightharpoonup> Deposit"
  deposit_seq :: nat
  withdrawals :: "nat \<rightharpoonup> Withdrawal"
  withdrawal_seq :: nat
  swaps :: "nat \<rightharpoonup> SwapRequest"
  swap_seq :: nat
  affiliates :: "user_id \<rightharpoonup> Affiliate"
  merchant_apps :: "nat \<rightharpoonup> MerchantApplication"
  trades :: "Trade list"
  notifications :: "Notification list"
  staff :: "user_id list"

definition notify :: "user_id \<Rightarrow> message \<Rightarrow> db \<Rightarrow> db" where
  "notify u m d = d\<lparr>notifications := notifications d @ [\<lparr>note_user = u, note_message = m\<rparr>]\<rparr>"

text \<open>\<^verbatim>\<open>portfolio.save(update_fields=['balance_usd'])\<close>: only the balance column is written.\<close>

definition save_balance :: "user_id \<Rightarrow> decimal \<Rightarrow> db \<Rightarrow> db" where
  "save_balance u b d =
     (case portfolios d u of
        None \<Rightarrow> d
      | Some row \<Rightarrow> d\<lparr>portfolios := (portfolios d)(u \<mapsto> row\<lparr>balance_usd := b\<rparr>)\<rparr>)"

text \<open>\<^verbatim>\<open>portfolio.save()\<close>: the whole row is written from the object in memory.\<close>

definition save_portfolio :: "user_id \<Rightarrow> UserPortfolio \<Rightarrow> db \<Rightarrow> db" where
  "save_portfolio u p d = d\<lparr>portfolios := (portfolios d)(u \<mapsto> p)\<rparr>"

definition balance_of :: "db \<Rightarrow> user_id \<Rightarrow> decimal" where
  "balance_of d u = (case portfolios d u of None \<Rightarrow> 0 | Some p \<Rightarrow> balance_usd p)"

section \<open>Swap settlement (tasks.py)\<close>

datatype swap_response =
    Swap_completed
  | Swap_not_due
  | Swap_not_found
  | Swap_raised exn

text \<open>
  The body of \<^verbatim>\<open>process_swap\<close> after the guard and the due check. \<open>Inl\<close> is an exception
  that leaves the function; the caller's \<^verbatim>\<open>transaction.atomic\<close> then rolls the writes back.
\<close>

definition settle_swap :: "time \<Rightarrow> db \<Rightarrow> nat \<Rightarrow> SwapRequest \<Rightarrow> exn + db" where
  "settle_swap current_time d swap_id swap_request =
     (let d1 = d\<lparr>swaps := (swaps d)(swap_id \<mapsto> swap_request\<lparr>swap_status := IN_PROGRESS\<rparr>)\<rparr>
      in case assets d1 (from_asset swap_request) of
           None \<Rightarrow> Inl DoesNotExist
         | Some from_a \<Rightarrow>
      (case swap_back_asset swap_request of
           None \<Rightarrow> Inl AttributeError
         | Some back_id \<Rightarrow>
      (case assets d1 back_id of
           None \<Rightarrow> Inl DoesNotExist
         | Some back_a \<Rightarrow>
      (case assets d1 (to_asset swap_request) of
           None \<Rightarrow> Inl DoesNotExist
         | Some to_a \<Rightarrow>
      (let from_amount = swap_amount swap_request;
           from_price = price_usd from_a;
           back_price = price_usd back_a;
           original_to_price = original_to_asset_price swap_request;
           latest_to_price = price_usd to_a
       in case ddiv (dmul from_amount from_price) original_to_price of
            Inl e \<Rightarrow> Inl e
          | Inr to_amount \<Rightarrow>
       (case ddiv (dmul to_amount latest_to_price) back_price of
            Inl e \<Rightarrow> Inl e
          | Inr back_amount \<Rightarrow>
       (let d2 = d1\<lparr>swaps := (swaps d1)(swap_id \<mapsto>
                       swap_request\<lparr>swap_back_amount := back_amount,
                                    swap_status := COMPLETED,
                                    completed_at := Some current_time\<rparr>)\<rparr>
        in case portfolios d2 (swap_user swap_request) of
             None \<Rightarrow> Inl DoesNotExist
           | Some portfolio \<Rightarrow>
        (let d3 = save_balance (swap_user swap_request)
                    (dadd (balance_usd portfolio) back_amount) d2;
             d4 = d3\<lparr>trades := trades d3 @
                    [\<lparr>trade_user = swap_user swap_request, trade_asset = from_asset swap_request,
                      trade_type = SELL, quantity = from_amount, price_at_trade = from_price\<rparr>,
                     \<lparr>trade_user = swap_user swap_request, trade_asset = to_asset swap_request,
                      trade_type = BUY, quantity = to_amount, price_at_trade = original_to_price\<rparr>,
                     \<lparr>trade_user = swap_user swap_request, trade_asset = to_asset swap_request,
                      trade_type = SELL, quantity = to_amount, price_at_trade = latest_to_price\<rparr>,
                     \<lparr>trade_user = swap_user swap_request, trade_asset = back_id,
                      trade_type = BUY, quantity = back_amount, price_at_trade = back_price\<rparr>]\<rparr>;
             profit_loss = dsub back_amount from_amount;
             profit_loss_percentage =
               (if 0 < from_amount then dmul (dec_fix (profit_loss / from_amount)) 100 else 0);
             d5 = notify (swap_user swap_request)
                    (if 0 < profit_loss
                     then Swap_profit back_amount profit_loss profit_loss_percentage
                     else Swap_loss back_amount profit_loss profit_loss_percentage) d4
         in Inr (notify (swap_user swap_request) Portfolio_updated d5)))))))))"

text \<open>
  \<^verbatim>\<open>process_swap(swap_id, force_process)\<close>: the row is fetched under the status guard; a swap
  that is not due and not forced returns early; an exception rolls back to the database
  as it was.
\<close>

definition process_swap :: "time \<Rightarrow> db \<Rightarrow> nat \<Rightarrow> bool \<Rightarrow> swap_response \<times> db" where
  "process_swap current_time d swap_id force_process =
     (case swaps d swap_id of
        None \<Rightarrow> (Swap_not_found, d)
      | Some swap_request \<Rightarrow>
          if swap_status swap_request \<notin> {PENDING, APPROVED, IN_PROGRESS} then (Swap_not_found, d)
          else if \<not> force_process \<and> current_time < swap_time swap_request then (Swap_not_due, d)
          else (case settle_swap current_time d swap_id swap_request of
                  Inl e \<Rightarrow> (Swap_raised e, d)
                | Inr d' \<Rightarrow> (Swap_completed, d')))"

section \<open>Responses of the request handlers (views.py)\<close>

text \<open>
  One constructor for each response that the handlers modelled below return, named after
  the message of the source; the HTTP status is noted where the theorems refer to it.
\<close>

datatype response =
    Account_suspended  \<comment> \<open>403, the account is frozen\<close>
  | Missing_required_field
  | Merchant_id_required
  | Approved_merchant_not_found
  | Merchant_profile_not_found
  | Merchant_not_active
  | Deposit_quoted nat decimal decimal decimal
      \<comment> \<open>deposit id, total amount with fee, base amount, fee amount\<close>
  | Deposit_created nat
  | Server_error  \<comment> \<open>500, an exception caught by the handler\<close>
  | Not_found  \<comment> \<open>404, not found or already processed\<close>
  | Portfolio_not_found
  | Insufficient_balance  \<comment> \<open>400\<close>
  | Deposit_approved
  | Deposit_declined
  | Amount_must_be_positive
  | Bank_details_required
  | Recipient_required
  | Recipient_not_found
  | Cannot_transfer_to_own_account
  | Email_required
  | Wallet_and_chain_required
  | Withdrawal_created_p2p nat decimal decimal
      \<comment> \<open>withdrawal id, what the user receives, fee amount\<close>
  | Transferred
  | Withdrawal_created nat
  | Withdrawal_declined
  | Withdrawal_rejected_by_admin
  | USDT_not_found
  | From_asset_must_be_USDT
  | Back_asset_must_be_USDT
  | Invalid_swap_amount
  | Cannot_swap_same_asset
  | Insufficient_balance_for_swap
  | Invalid_swap_time
  | Swap_time_must_be_future
  | Swap_duration_too_short
  | Swap_duration_too_long
  | Swap_created nat

text \<open>
  A numeric field of a request body, after \<^verbatim>\<open>Decimal(str(value))\<close>: a value, or a text
  that \<^verbatim>\<open>Decimal\<close> refuses.
\<close>

datatype amount_input = Amount decimal | Not_a_number

text \<open>\<^verbatim>\<open>hasattr(user, 'userportfolio') and user.userportfolio.is_frozen\<close>\<close>

definition frozen :: "db \<Rightarrow> user_id \<Rightarrow> bool" where
  "frozen d u = (case portfolios d u of None \<Rightarrow> False | Some p \<Rightarrow> is_frozen p)"

text \<open>
  \<^verbatim>\<open>create_and_send_notification\<close> for a user field that may be null: the helper catches
  its own failure and nothing is stored.
\<close>

definition notify_opt :: "user_id option \<Rightarrow> message \<Rightarrow> db \<Rightarrow> db" where
  "notify_opt u m d = (case u of None \<Rightarrow> d | Some v \<Rightarrow> notify v m d)"

text \<open>\<^verbatim>\<open>User.objects.filter(is_staff=True).first()\<close>\<close>

definition first_staff :: "db \<Rightarrow> user_id option" where
  "first_staff d = (case staff d of [] \<Rightarrow> None | a # _ \<Rightarrow> Some a)"

section \<open>Deposits (models.py, transaction\_processor.py, views.py)\<close>

text \<open>
  \<^verbatim>\<open>Deposit._process_referral_bonus\<close>. Every exception is caught and logged inside the
  method, so it always returns; a missing portfolio ends it where it is.
\<close>

definition process_referral_bonus :: "Deposit \<Rightarrow> db \<Rightarrow> db" where
  "process_referral_bonus self d =
     (case portfolios d (dep_user self) of
        None \<Rightarrow> d
      | Some user_portfolio \<Rightarrow>
          (let d1 = (if initial_deposit_amount user_portfolio = None
                     then save_portfolio (dep_user self)
                            (user_portfolio\<lparr>initial_deposit_amount := Some (dep_amount self)\<rparr>) d
                     else d)
           in (case affiliates d1 (dep_user self) of
                 None \<Rightarrow> d1
               | Some affiliate \<Rightarrow>
                   if has_funded_wallet affiliate then d1
                   else
                     (let d2 = d1\<lparr>affiliates := (affiliates d1)
                                (dep_user self \<mapsto> affiliate\<lparr>has_funded_wallet := True\<rparr>)\<rparr>
                      in (case portfolios d2 (referrer affiliate) of
                            None \<Rightarrow> d2
                          | Some referrer_portfolio \<Rightarrow>
                              (let bonus_amount = dmul (dep_amount self) (15 / 100);
                                   d3 = save_portfolio (referrer affiliate)
                                          (referrer_portfolio\<lparr>balance_usd :=
                                             dadd (balance_usd referrer_portfolio) bonus_amount\<rparr>) d2
                               in notify (referrer affiliate)
                                    (Referral_bonus (dep_user self) bonus_amount) d3))))))"

text \<open>
  \<^verbatim>\<open>Deposit.save\<close> of an object that has a primary key: the stored row is compared with
  the object before the row is written, and the bonus is processed on the change to
  \<^verbatim>\<open>APPROVED\<close>.
\<close>

definition Deposit_save :: "nat \<Rightarrow> Deposit \<Rightarrow> db \<Rightarrow> db" where
  "Deposit_save pk self d =
     (let was_approved =
            (case deposits d pk of
               None \<Rightarrow> False
             | Some old_deposit \<Rightarrow>
                 dep_status old_deposit \<noteq> APPROVED \<and> dep_status self = APPROVED);
          d1 = d\<lparr>deposits := (deposits d)(pk \<mapsto> self)\<rparr>
      in if was_approved then process_referral_bonus self d1 else d1)"

text \<open>The unique constraint on \<^verbatim>\<open>Deposit.transaction_id\<close>.\<close>

definition transaction_id_taken :: "db \<Rightarrow> string \<Rightarrow> bool" where
  "transaction_id_taken d t =
     list_ex (\<lambda>i. case deposits d i of None \<Rightarrow> False | Some x \<Rightarrow> dep_transaction_id x = t)
       [0..<deposit_seq d]"

text \<open>\<^verbatim>\<open>Deposit.objects.create\<close>: \<^verbatim>\<open>save\<close> of an object without a primary key.\<close>

definition Deposit_create :: "Deposit \<Rightarrow> db \<Rightarrow> exn + nat \<times> db" where
  "Deposit_create self d =
     (if transaction_id_taken d (dep_transaction_id self) then Inl IntegrityError
      else let pk = deposit_seq d;
               d1 = d\<lparr>deposits := (deposits d)(pk \<mapsto> self), deposit_seq := Suc pk\<rparr>
           in Inr (pk, if dep_status self = APPROVED then process_referral_bonus self d1 else d1))"



record deposit_data =
  dd_amount :: "amount_input option"
  dd_method :: "string option"
  dd_merchant_id :: "nat option"
  dd_transaction_id :: "string option"

text \<open>
  \<^verbatim>\<open>deposit_funds\<close>. A field is \<open>None\<close> when the key is absent from the request body. The
  exchange rate fetched from outside only enters the text of a notification.
\<close>

definition deposit_funds :: "db \<Rightarrow> user_id \<Rightarrow> deposit_data \<Rightarrow> response \<times> db" where
  "deposit_funds d request_user data =
     (if frozen d request_user then (Account_suspended, d)
      else
      (case (dd_amount data, dd_method data) of
         (Some amount, Some method) \<Rightarrow>
           if method = ''BANK_TRANSFER'' then
             (case dd_merchant_id data of
                None \<Rightarrow> (Merchant_id_required, d)
              | Some merchant_id \<Rightarrow>
                  if merchant_id = 0 then (Merchant_id_required, d)
                  else
                  (case merchant_apps d merchant_id of
                     None \<Rightarrow> (Approved_merchant_not_found, d)
                   | Some merchant_app \<Rightarrow>
                       if app_status merchant_app \<noteq> APPROVED
                       then (Approved_merchant_not_found, d)
                       else
                       (case portfolios d (app_user merchant_app) of
                          None \<Rightarrow> (Merchant_profile_not_found, d)
                        | Some merchant_portfolio \<Rightarrow>
                            if \<not> is_merchant merchant_portfolio then (Merchant_not_active, d)
                            else
                            (case amount of
                               Not_a_number \<Rightarrow> (Server_error, d)
                             | Amount base \<Rightarrow>
                                 (let fee = dmul base (35 / 1000);
                                      total = dadd base fee
                                  in (case Deposit_create
                                             \<lparr>dep_user = request_user, dep_amount = base,
                                              dep_status = PENDING, dep_method = method,
                                              dep_transaction_id =
                                                (case dd_transaction_id data of
                                                   None \<Rightarrow> [] | Some t \<Rightarrow> t),
                                              dep_merchant = Some (app_user merchant_app),
                                              merchant_action_required = True,
                                              deposit_notes =
                                                Some \<lparr>fee_percentage = 35 / 10,
                                                      fee_amount = fee,
                                                      total_amount_with_fee = total,
                                                      base_amount = base\<rparr>\<rparr> d of
                                        Inl e \<Rightarrow> (Server_error, d)
                                      | Inr (pk, d1) \<Rightarrow>
                                          (Deposit_quoted pk total base fee,
                                           notify request_user (Deposit_submitted_user total)
                                             (notify (app_user merchant_app)
                                                (Deposit_submitted_merchant total) d1))))))))
           else
             (case amount of
                Not_a_number \<Rightarrow> (Server_error, d)
              | Amount a \<Rightarrow>
                  (case Deposit_create
                          \<lparr>dep_user = request_user, dep_amount = a, dep_status = PENDING,
                           dep_method = method,
                           dep_transaction_id =
                             (case dd_transaction_id data of None \<Rightarrow> [] | Some t \<Rightarrow> t),
                           dep_merchant = None, merchant_action_required = False,
                           deposit_notes = None\<rparr> d of
                     Inl e \<Rightarrow> (Server_error, d)
                   | Inr (pk, d1) \<Rightarrow> (Deposit_created pk, d1)))
       | _ \<Rightarrow> (Missing_required_field, d)))"

text \<open>
  \<^verbatim>\<open>merchant_approve_deposit\<close>. The amounts are read back from the fee annotation, with
  the deposit's amount and a zero fee as defaults. An exception inside the atomic block
  (the depositor's portfolio is missing) rolls the block back.
\<close>

definition merchant_approve_deposit :: "db \<Rightarrow> user_id \<Rightarrow> nat \<Rightarrow> response \<times> db" where
  "merchant_approve_deposit d request_user deposit_id =
     (case deposits d deposit_id of
        None \<Rightarrow> (Not_found, d)
      | Some deposit \<Rightarrow>
          if \<not> (dep_merchant deposit = Some request_user \<and> dep_status deposit = PENDING
                 \<and> merchant_action_required deposit)
          then (Not_found, d)
          else
            (let base = (case deposit_notes deposit of
                           None \<Rightarrow> dep_amount deposit | Some fee_info \<Rightarrow> base_amount fee_info);
                 fee = (case deposit_notes deposit of
                          None \<Rightarrow> 0 | Some fee_info \<Rightarrow> fee_amount fee_info)
             in (case portfolios d request_user of
                   None \<Rightarrow> (Portfolio_not_found, d)
                 | Some merchant_portfolio \<Rightarrow>
                     if balance_usd merchant_portfolio < base then (Insufficient_balance, d)
                     else
                       (let d1 = save_portfolio request_user
                                   (merchant_portfolio\<lparr>balance_usd :=
                                      dsub (balance_usd merchant_portfolio) base\<rparr>) d;
                            d2 = Deposit_save deposit_id
                                   (deposit\<lparr>dep_status := APPROVED,
                                            merchant_action_required := False\<rparr>) d1
                        in (case portfolios d2 (dep_user deposit) of
                              None \<Rightarrow> (Portfolio_not_found, d)
                            | Some user_portfolio \<Rightarrow>
                                (let d3 = save_portfolio (dep_user deposit)
                                            (user_portfolio\<lparr>balance_usd :=
                                               dadd (balance_usd user_portfolio) base\<rparr>) d2;
                                     d4 = notify (dep_user deposit)
                                            (Deposit_approved_user base) d3
                                 in (Deposit_approved,
                                     notify request_user
                                       (Deposit_approved_merchant base fee) d4)))))))"


section \<open>Withdrawals (views.py, admin.py)\<close>

record withdraw_form =
  wf_amount :: "amount_input option"
  wf_method :: "string option"
  wf_account_name :: "string option"
  wf_account_number :: "string option"
  wf_bank_name :: "string option"
  wf_merchant_id :: "nat option"
  wf_email :: "string option"
  wf_wallet_address :: "string option"
  wf_chain :: "string option"

text \<open>Truth values of \<^verbatim>\<open>form_data.get(key)\<close>: absent, empty and zero are false.\<close>

definition truthy_text :: "string option \<Rightarrow> bool" where
  "truthy_text v = (case v of None \<Rightarrow> False | Some t \<Rightarrow> t \<noteq> [])"

definition truthy_amount :: "amount_input option \<Rightarrow> bool" where
  "truthy_amount v = (case v of None \<Rightarrow> False | Some Not_a_number \<Rightarrow> True | Some (Amount a) \<Rightarrow> a \<noteq> 0)"

text \<open>\<^verbatim>\<open>UserPortfolio.objects.get(account_number=...)\<close>; the column is unique.\<close>

definition portfolio_by_account :: "db \<Rightarrow> string \<Rightarrow> (user_id \<times> UserPortfolio) option" where
  "portfolio_by_account d acct =
     (case List.find (\<lambda>u. case portfolios d u of
                             None \<Rightarrow> False | Some p \<Rightarrow> account_number p = acct)
             [0..<user_seq d] of
        None \<Rightarrow> None
      | Some u \<Rightarrow> map_option (Pair u) (portfolios d u))"

definition Withdrawal_create :: "Withdrawal \<Rightarrow> db \<Rightarrow> nat \<times> db" where
  "Withdrawal_create self d =
     (let pk = withdrawal_seq d
      in (pk, d\<lparr>withdrawals := (withdrawals d)(pk \<mapsto> self), withdrawal_seq := Suc pk\<rparr>))"

text \<open>
  \<^verbatim>\<open>withdraw_funds\<close>, with its three branches (bank transfer through a merchant,
  internal transfer, external withdrawal) as functions of their own. A \<^verbatim>\<open>return\<close>
  inside the atomic block commits what was written before it; an exception (the sender
  has no portfolio, the amount is not a number) is answered with status 500 and nothing
  is written.
\<close>

definition withdraw_bank ::
  "db \<Rightarrow> user_id \<Rightarrow> withdraw_form \<Rightarrow> decimal \<Rightarrow> UserPortfolio \<Rightarrow> response \<times> db" where
  "withdraw_bank d user form_data amount sender_portfolio =
     (case (wf_account_name form_data, wf_account_number form_data,
            wf_bank_name form_data, wf_merchant_id form_data) of
        (Some account_name, Some account_no, Some bank_name, Some merchant_id) \<Rightarrow>
          if account_name = [] \<or> account_no = [] \<or> bank_name = [] \<or> merchant_id = 0
          then (Bank_details_required, d)
          else
          (case merchant_apps d merchant_id of
             None \<Rightarrow> (Approved_merchant_not_found, d)
           | Some merchant_application \<Rightarrow>
               if app_status merchant_application \<noteq> APPROVED
               then (Approved_merchant_not_found, d)
               else
               (let merchant = app_user merchant_application
                in (case portfolios d merchant of
                      None \<Rightarrow> (Merchant_profile_not_found, d)
                    | Some merchant_portfolio \<Rightarrow>
                        (let d1 = (if \<not> is_merchant merchant_portfolio
                                   then save_portfolio merchant
                                          (merchant_portfolio\<lparr>is_merchant := True\<rparr>) d
                                   else d);
                             fee = dmul amount (5 / 100);
                             receives = dsub amount fee;
                             (pk, d2) = Withdrawal_create
                               \<lparr>wd_user = user, wd_amount = amount, wd_status = PENDING,
                                wd_method = ''BANK'',
                                to_address =
                                  Some (Bank_details account_name account_no bank_name),
                                chain = None, wd_merchant = Some merchant,
                                user_confirmation_required = True,
                                withdrawal_notes =
                                  Some \<lparr>wfee_percentage = 35 / 10, wfee_amount = fee,
                                        user_receives = receives,
                                        total_amount_processed = amount\<rparr>\<rparr> d1;
                             d3 = save_portfolio user
                                    (sender_portfolio\<lparr>balance_usd :=
                                       dsub (balance_usd sender_portfolio) amount\<rparr>) d2;
                             d4 = notify merchant
                                    (Withdrawal_request_merchant amount receives) d3
                         in (Withdrawal_created_p2p pk receives fee,
                             notify user (Withdrawal_submitted_user amount receives) d4)))))
      | _ \<Rightarrow> (Bank_details_required, d))"

definition withdraw_internal ::
  "db \<Rightarrow> user_id \<Rightarrow> withdraw_form \<Rightarrow> decimal \<Rightarrow> UserPortfolio \<Rightarrow> response \<times> db" where
  "withdraw_internal d user form_data amount sender_portfolio =
     (case wf_account_number form_data of
        None \<Rightarrow> (Recipient_required, d)
      | Some recipient_account_number \<Rightarrow>
          if recipient_account_number = [] then (Recipient_required, d)
          else
          (case portfolio_by_account d recipient_account_number of
             None \<Rightarrow> (Recipient_not_found, d)
           | Some (recipient, recipient_portfolio) \<Rightarrow>
               if recipient = user then (Cannot_transfer_to_own_account, d)
               else
                 (let d1 = save_balance user
                             (dsub (balance_usd sender_portfolio) amount) d;
                      d2 = save_balance recipient
                             (dadd (balance_usd recipient_portfolio) amount) d1;
                      (pk, d3) = Withdrawal_create
                        \<lparr>wd_user = user, wd_amount = amount, wd_status = COMPLETED,
                         wd_method = ''INTERNAL'',
                         to_address = Some (Plain_address recipient_account_number),
                         chain = None, wd_merchant = None,
                         user_confirmation_required = False,
                         withdrawal_notes = None\<rparr> d2
                  in (Transferred, d3))))"

definition withdraw_external ::
  "db \<Rightarrow> user_id \<Rightarrow> withdraw_form \<Rightarrow> string \<Rightarrow> decimal \<Rightarrow> UserPortfolio \<Rightarrow> response \<times> db"
  where
  "withdraw_external d user form_data method amount sender_portfolio =
     (let withdrawal =
            \<lparr>wd_user = user, wd_amount = amount, wd_status = PENDING,
             wd_method = method, to_address = None, chain = None,
             wd_merchant = None, user_confirmation_required = False,
             withdrawal_notes = None\<rparr>;
          finish = (\<lambda>w.
            (let (pk, d1) = Withdrawal_create w d;
                 d2 = save_balance user (dsub (balance_usd sender_portfolio) amount) d1
             in (Withdrawal_created pk,
                 notify_opt (first_staff d2) Withdrawal_submitted_admin d2)))
      in if method = ''BYBIT'' then
           (case wf_email form_data of
              None \<Rightarrow> (Email_required, d)
            | Some email \<Rightarrow>
                if email = [] then (Email_required, d)
                else finish (withdrawal\<lparr>to_address := Some (Plain_address email)\<rparr>))
         else if method = ''ON_CHAIN'' then
           (case (wf_wallet_address form_data, wf_chain form_data) of
              (Some wallet_address, Some chain_name) \<Rightarrow>
                if wallet_address = [] \<or> chain_name = [] then (Wallet_and_chain_required, d)
                else finish (withdrawal\<lparr>to_address := Some (Plain_address wallet_address),
                                        chain := Some chain_name\<rparr>)
            | _ \<Rightarrow> (Wallet_and_chain_required, d))
         else finish withdrawal)"

definition withdraw_funds :: "db \<Rightarrow> user_id \<Rightarrow> withdraw_form \<Rightarrow> response \<times> db" where
  "withdraw_funds d user form_data =
     (if frozen d user then (Account_suspended, d)
      else if \<not> (truthy_amount (wf_amount form_data) \<and> truthy_text (wf_method form_data))
      then (Missing_required_field, d)
      else
      (case (wf_amount form_data, wf_method form_data) of
         (Some (Amount amount), Some method) \<Rightarrow>
           if amount \<le> 0 then (Amount_must_be_positive, d)
           else
           (case portfolios d user of
              None \<Rightarrow> (Server_error, d)
            | Some sender_portfolio \<Rightarrow>
                if balance_usd sender_portfolio < amount then (Insufficient_balance, d)
                else if method = ''BANK''
                then withdraw_bank d user form_data amount sender_portfolio
                else if method = ''INTERNAL''
                then withdraw_internal d user form_data amount sender_portfolio
                else withdraw_external d user form_data method amount sender_portfolio)
       | (Some Not_a_number, Some method) \<Rightarrow> (Server_error, d)
       | _ \<Rightarrow> (Missing_required_field, d)))"

text \<open>
  \<^verbatim>\<open>user_decline_withdrawal\<close>: the user declines the receipt of a P2P withdrawal and is
  refunded.
\<close>

definition user_decline_withdrawal :: "db \<Rightarrow> user_id \<Rightarrow> nat \<Rightarrow> response \<times> db" where
  "user_decline_withdrawal d request_user withdrawal_id =
     (case withdrawals d withdrawal_id of
        None \<Rightarrow> (Not_found, d)
      | Some withdrawal \<Rightarrow>
          if \<not> (wd_user withdrawal = request_user \<and> wd_status withdrawal = PENDING
                 \<and> user_confirmation_required withdrawal)
          then (Not_found, d)
          else
          (case portfolios d request_user of
             None \<Rightarrow> (Server_error, d)
           | Some user_portfolio \<Rightarrow>
               let d1 = save_portfolio request_user
                          (user_portfolio\<lparr>balance_usd :=
                             dadd (balance_usd user_portfolio) (wd_amount withdrawal)\<rparr>) d;
                   d2 = d1\<lparr>withdrawals := (withdrawals d1)(withdrawal_id \<mapsto>
                          withdrawal\<lparr>wd_status := REJECTED,
                                     user_confirmation_required := False\<rparr>)\<rparr>;
                   d3 = notify_opt (wd_merchant withdrawal) Withdrawal_declined_merchant d2
               in (Withdrawal_declined, notify request_user Withdrawal_declined_user d3)))"

text \<open>
  \<^verbatim>\<open>reject_withdrawal\<close> of views.py, the staff view routed at
  \<^verbatim>\<open>withdraw/reject/<id>/\<close>.
\<close>

definition reject_withdrawal :: "db \<Rightarrow> nat \<Rightarrow> response \<times> db" where
  "reject_withdrawal d withdrawal_id =
     (case withdrawals d withdrawal_id of
        None \<Rightarrow> (Not_found, d)
      | Some withdrawal \<Rightarrow>
          if wd_status withdrawal \<noteq> PENDING then (Not_found, d)
          else (Withdrawal_rejected_by_admin,
                d\<lparr>withdrawals := (withdrawals d)(withdrawal_id \<mapsto>
                     withdrawal\<lparr>wd_status := REJECTED\<rparr>)\<rparr>))"

text \<open>
  \<^verbatim>\<open>WithdrawalAdmin.reject_withdrawals\<close> of admin.py, the admin action on a selection:
  one step of its loop, and the loop over the pending rows of the selection. A failure
  inside a step is logged and the loop goes on.
\<close>

definition reject_one :: "nat \<times> Withdrawal \<Rightarrow> db \<Rightarrow> db" where
  "reject_one iw d =
     (case iw of (pk, withdrawal) \<Rightarrow>
        (case portfolios d (wd_user withdrawal) of
           None \<Rightarrow> d
         | Some portfolio \<Rightarrow>
             let d1 = save_portfolio (wd_user withdrawal)
                        (portfolio\<lparr>balance_usd :=
                           dadd (balance_usd portfolio) (wd_amount withdrawal)\<rparr>) d;
                 d2 = d1\<lparr>withdrawals := (withdrawals d1)(pk \<mapsto>
                        withdrawal\<lparr>wd_status := REJECTED,
                                   user_confirmation_required := False\<rparr>)\<rparr>
             in notify (wd_user withdrawal) (Withdrawal_rejected (wd_amount withdrawal)) d2))"



section \<open>Swap creation (views.py)\<close>

datatype time_input = Parsed time | Unparseable

record swap_data =
  sd_from_asset :: "nat option"
  sd_to_asset :: "nat option"
  sd_swap_amount :: "amount_input option"
  sd_swap_back_asset :: "nat option"
  sd_swap_back_time :: "time_input option"

text \<open>\<^verbatim>\<open>SyntheticAsset.objects.get(symbol='USDT')\<close> finds a row.\<close>

definition usdt_exists :: "db \<Rightarrow> bool" where
  "usdt_exists d =
     list_ex (\<lambda>i. case assets d i of None \<Rightarrow> False | Some a \<Rightarrow> symbol a = ''USDT'')
       [0..<asset_seq d]"

definition SwapRequest_create :: "SwapRequest \<Rightarrow> db \<Rightarrow> nat \<times> db" where
  "SwapRequest_create self d =
     (let pk = swap_seq d
      in (pk, d\<lparr>swaps := (swaps d)(pk \<mapsto> self), swap_seq := Suc pk\<rparr>))"

text \<open>
  \<^verbatim>\<open>swap_tokens\<close>. \<^verbatim>\<open>get_object_or_404\<close> raises \<^verbatim>\<open>Http404\<close>, which the handler's
  outer \<^verbatim>\<open>except Exception\<close> answers with status 500. The duration is compared in minutes.
\<close>

definition swap_tokens :: "time \<Rightarrow> db \<Rightarrow> user_id \<Rightarrow> swap_data \<Rightarrow> response \<times> db" where
  "swap_tokens current_time d user data =
     (if frozen d user then (Account_suspended, d)
      else
      (case (sd_from_asset data, sd_to_asset data, sd_swap_amount data,
             sd_swap_back_asset data, sd_swap_back_time data) of
         (Some from_id, Some to_id, Some amount, Some back_id, Some back_time) \<Rightarrow>
           if \<not> usdt_exists d then (USDT_not_found, d)
           else
           (case assets d from_id of
              None \<Rightarrow> (Server_error, d)
            | Some from_a \<Rightarrow>
                if symbol from_a \<noteq> ''USDT'' then (From_asset_must_be_USDT, d)
                else
                (case assets d to_id of
                   None \<Rightarrow> (Server_error, d)
                 | Some to_a \<Rightarrow>
                 (case assets d back_id of
                    None \<Rightarrow> (Server_error, d)
                  | Some back_a \<Rightarrow>
                      if symbol back_a \<noteq> ''USDT'' then (Back_asset_must_be_USDT, d)
                      else
                      (case amount of
                         Not_a_number \<Rightarrow> (Invalid_swap_amount, d)
                       | Amount amt \<Rightarrow>
                           if from_id = to_id then (Cannot_swap_same_asset, d)
                           else if amt \<le> 0 then (Amount_must_be_positive, d)
                           else
                           (case portfolios d user of
                              None \<Rightarrow> (Portfolio_not_found, d)
                            | Some portfolio \<Rightarrow>
                                if balance_usd portfolio < amt
                                then (Insufficient_balance_for_swap, d)
                                else
                                (case back_time of
                                   Unparseable \<Rightarrow> (Invalid_swap_time, d)
                                 | Parsed t \<Rightarrow>
                                     if t \<le> current_time then (Swap_time_must_be_future, d)
                                     else if (of_int (t - current_time) :: rat) / 60 < 5
                                     then (Swap_duration_too_short, d)
                                     else if 43200 < (of_int (t - current_time) :: rat) / 60
                                     then (Swap_duration_too_long, d)
                                     else
                                       let (pk, d1) = SwapRequest_create
                                             \<lparr>swap_user = user, from_asset = from_id,
                                              to_asset = to_id, swap_back_asset = Some back_id,
                                              swap_amount = amt, swap_back_amount = 0,
                                              original_to_asset_price = price_usd to_a,
                                              swap_time = t, completed_at = None,
                                              swap_status = PENDING\<rparr> d;
                                           d2 = save_balance user
                                                  (dsub (balance_usd portfolio) amt) d1;
                                           d3 = notify user Swap_submitted d2
                                       in (Swap_created pk,
                                           notify_opt (first_staff d3) Swap_submitted d3)))))))
       | _ \<Rightarrow> (Missing_required_field, d)))"

section \<open>Column types of the monetary fields (models.py)\<close>

datatype field_type = FloatField | DecimalField nat nat

datatype money_column =
    UserPortfolio_balance_usd
  | UserPortfolio_initial_deposit_amount
  | Transaction_amount
  | SwapRequest_swap_amount
  | SwapRequest_swap_back_amount
  | SwapRequest_original_to_asset_price
  | SyntheticAsset_price_usd
  | Trade_quantity
  | Trade_price_at_trade

text \<open>
  The field class each column is declared with; \<^verbatim>\<open>Transaction.amount\<close> is the amount of
  both \<^verbatim>\<open>Deposit\<close> and \<^verbatim>\<open>Withdrawal\<close>.
\<close>

fun column_type :: "money_column \<Rightarrow> field_type" where
  "column_type UserPortfolio_balance_usd = DecimalField 20 4"
| "column_type UserPortfolio_initial_deposit_amount = DecimalField 20 4"
| "column_type Transaction_amount = FloatField"
| "column_type SwapRequest_swap_amount = FloatField"
| "column_type SwapRequest_swap_back_amount = FloatField"
| "column_type SwapRequest_original_to_asset_price = DecimalField 20 10"
| "column_type SyntheticAsset_price_usd = FloatField"
| "column_type Trade_quantity = FloatField"
| "column_type Trade_price_at_trade = FloatField"


text \<open>
  The values a column can hold. \<^verbatim>\<open>Decimal(str(x))\<close> of a float \<open>x\<close> has at most 17
  significant digits, the longest \<^verbatim>\<open>repr\<close> of a double; a
  \<^verbatim>\<open>DecimalField(max_digits, decimal_places)\<close> holds at most \<^verbatim>\<open>decimal_places\<close> digits after
  the point and \<^verbatim>\<open>max_digits - decimal_places\<close> before it.
\<close>

definition has_decimal_places :: "nat \<Rightarrow> rat \<Rightarrow> bool" where
  "has_decimal_places k x = (of_int \<lfloor>x * 10 ^ k\<rfloor> = x * 10 ^ k)"

definition has_significant_digits :: "nat \<Rightarrow> rat \<Rightarrow> bool" where
  "has_significant_digits n x =
     (if x = 0 then True
      else let s = 10 powi (adjusted x - (int n - 1)) in of_int \<lfloor>x / s\<rfloor> = x / s)"

fun fits :: "field_type \<Rightarrow> decimal \<Rightarrow> bool" where
  "fits FloatField x = has_significant_digits 17 x"
| "fits (DecimalField max_digits places) x =
     (has_decimal_places places x \<and> \<bar>x\<bar> < 10 ^ (max_digits - places))"

section \<open>Auxiliary notions for the statements\<close>

text \<open>
  The referrer to whom \<^verbatim>\<open>_process_referral_bonus\<close> still owes a bonus for a referred user:
  the user has a referral edge whose \<^verbatim>\<open>has_funded_wallet\<close> is false.
\<close>

definition bonus_referrer :: "db \<Rightarrow> user_id \<Rightarrow> user_id option" where
  "bonus_referrer d u =
     (case affiliates d u of
        None \<Rightarrow> None
      | Some a \<Rightarrow> if has_funded_wallet a then None else Some (referrer a))"

text \<open>The referral edge of a user exists and is marked as funded.\<close>

definition funded :: "db \<Rightarrow> user_id \<Rightarrow> bool" where
  "funded d u = (case affiliates d u of None \<Rightarrow> False | Some a \<Rightarrow> has_funded_wallet a)"

text \<open>
  A payment of the referral bonus leaves a notification to the referrer that names the
  referred user; \<open>bonus_count\<close> counts the payments recorded for a referred user.
\<close>

fun is_bonus :: "user_id \<Rightarrow> message \<Rightarrow> bool" where
  "is_bonus u (Referral_bonus v b) = (v = u)"
| "is_bonus u _ = False"

definition bonus_count :: "db \<Rightarrow> user_id \<Rightarrow> nat" where
  "bonus_count d u = length (filter (\<lambda>n. is_bonus u (note_message n)) (notifications d))"




text \<open>
  Between two states, the bonus for user \<open>u\<close> was paid at most once, and only if the edge
  was not funded before; a funded edge stays funded.
\<close>

definition once :: "user_id \<Rightarrow> db \<Rightarrow> db \<Rightarrow> bool" where
  "once u d d' =
     ((bonus_count d' u = bonus_count d u \<and> (funded d u \<longrightarrow> funded d' u))
      \<or> (\<not> funded d u \<and> funded d' u \<and> bonus_count d' u = bonus_count d u + 1))"

section \<open>Test data\<close>

text \<open>
  Scenario C: user 7 has a pending swap of 100 USDT into asset 2, created when asset 2 cost
  2.00; asset 2 now costs 2.20 and USDT 1.00.
\<close>

definition scenario_C :: db where
  "scenario_C =
     \<lparr>user_seq = 8,
      portfolios = [7 \<mapsto> \<lparr>balance_usd = 0, is_merchant = False, initial_deposit_amount = None,
                              account_number = ''100000000007'', is_frozen = False\<rparr>],
      assets = [1 \<mapsto> \<lparr>symbol = ''USDT'', price_usd = 1\<rparr>,
                2 \<mapsto> \<lparr>symbol = ''MNT'', price_usd = 22 / 10\<rparr>],
      asset_seq = 3,
      deposits = Map.empty, deposit_seq = 1,
      withdrawals = Map.empty, withdrawal_seq = 1,
      swaps = [1 \<mapsto> \<lparr>swap_user = 7, from_asset = 1, to_asset = 2, swap_back_asset = Some 1,
                        swap_amount = 100, swap_back_amount = 0, original_to_asset_price = 2,
                        swap_time = 600, completed_at = None, swap_status = PENDING\<rparr>],
      swap_seq = 2,
      affiliates = Map.empty, merchant_apps = Map.empty,
      trades = [], notifications = [], staff = []\<rparr>"

text \<open>
  Scenario B: user 1 deposits 1000 through the merchant 2, who holds 5000; the request, and
  the database after \<^verbatim>\<open>deposit_funds\<close> has stored the pending deposit.
\<close>

definition scenario_B :: db where
  "scenario_B =
     \<lparr>user_seq = 3,
      portfolios = [1 \<mapsto> \<lparr>balance_usd = 0, is_merchant = False, initial_deposit_amount = None,
                              account_number = ''100000000001'', is_frozen = False\<rparr>,
                    2 \<mapsto> \<lparr>balance_usd = 5000, is_merchant = True, initial_deposit_amount = None,
                              account_number = ''100000000002'', is_frozen = False\<rparr>],
      assets = Map.empty, asset_seq = 1,
      deposits = Map.empty, deposit_seq = 1,
      withdrawals = Map.empty, withdrawal_seq = 1,
      swaps = Map.empty, swap_seq = 1,
      affiliates = Map.empty,
      merchant_apps = [1 \<mapsto> \<lparr>app_user = 2, app_status = APPROVED\<rparr>],
      trades = [], notifications = [], staff = []\<rparr>"

definition scenario_B_request :: deposit_data where
  "scenario_B_request =
     \<lparr>dd_amount = Some (Amount 1000), dd_method = Some ''BANK_TRANSFER'',
      dd_merchant_id = Some 1, dd_transaction_id = Some ''TX-1''\<rparr>"

definition scenario_B_pending :: db where
  "scenario_B_pending = snd (deposit_funds scenario_B 1 scenario_B_request)"

text \<open>
  A user with 250 and two assets, USDT and another; a well-formed swap request, and one
  whose destination is the source asset.
\<close>

definition scenario_swap :: db where
  "scenario_swap =
     \<lparr>user_seq = 8,
      portfolios = [7 \<mapsto> \<lparr>balance_usd = 250, is_merchant = False, initial_deposit_amount = None,
                              account_number = ''100000000007'', is_frozen = False\<rparr>],
      assets = [1 \<mapsto> \<lparr>symbol = ''USDT'', price_usd = 1\<rparr>,
                2 \<mapsto> \<lparr>symbol = ''MNT'', price_usd = 2\<rparr>],
      asset_seq = 3,
      deposits = Map.empty, deposit_seq = 1,
      withdrawals = Map.empty, withdrawal_seq = 1,
      swaps = Map.empty, swap_seq = 1,
      affiliates = Map.empty, merchant_apps = Map.empty,
      trades = [], notifications = [], staff = []\<rparr>"

definition swap_request_ok :: swap_data where
  "swap_request_ok =
     \<lparr>sd_from_asset = Some 1, sd_to_asset = Some 2, sd_swap_amount = Some (Amount 100),
      sd_swap_back_asset = Some 1, sd_swap_back_time = Some (Parsed 4600)\<rparr>"

definition swap_request_same :: swap_data where
  "swap_request_same =
     \<lparr>sd_from_asset = Some 1, sd_to_asset = Some 1, sd_swap_amount = Some (Amount 100),
      sd_swap_back_asset = Some 1, sd_swap_back_time = Some (Parsed 4600)\<rparr>"

text \<open>
  The pending deposit of scenario B with the merchant's account frozen; and scenario E: user 1
  holds 100 and asks for an external withdrawal of 40, which is escrowed.
\<close>

definition scenario_frozen_merchant :: db where
  "scenario_frozen_merchant =
     scenario_B_pending\<lparr>portfolios := (portfolios scenario_B_pending)
       (2 \<mapsto> \<lparr>balance_usd = 5000, is_merchant = True, initial_deposit_amount = None,
               account_number = ''100000000002'', is_frozen = True\<rparr>)\<rparr>"

definition scenario_E :: db where
  "scenario_E =
     \<lparr>user_seq = 2,
      portfolios = [1 \<mapsto> \<lparr>balance_usd = 100, is_merchant = False, initial_deposit_amount = None,
                              account_number = ''100000000001'', is_frozen = False\<rparr>],
      assets = Map.empty, asset_seq = 1,
      deposits = Map.empty, deposit_seq = 1,
      withdrawals = Map.empty, withdrawal_seq = 1,
      swaps = Map.empty, swap_seq = 1,
      affiliates = Map.empty, merchant_apps = Map.empty,
      trades = [], notifications = [], staff = []\<rparr>"

definition scenario_E_form :: withdraw_form where
  "scenario_E_form =
     \<lparr>wf_amount = Some (Amount 40), wf_method = Some ''BYBIT'',
      wf_account_name = None, wf_account_number = None, wf_bank_name = None,
      wf_merchant_id = None, wf_email = Some ''user@example.org'',
      wf_wallet_address = None, wf_chain = None\<rparr>"

definition scenario_E_escrowed :: db where
  "scenario_E_escrowed = snd (withdraw_funds scenario_E 1 scenario_E_form)"



text \<open>Scenario C with the price of asset 2 fallen to 1.80 instead.\<close>

definition scenario_C_fall :: db where
  "scenario_C_fall =
     scenario_C\<lparr>assets := (assets scenario_C)(2 \<mapsto> \<lparr>symbol = ''MNT'', price_usd = 18 / 10\<rparr>)\<rparr>"

section \<open>Verified properties\<close>

subsection \<open>Balances and tables after the basic writes\<close>

lemma save_portfolio_fields [simp]:
  "portfolios (save_portfolio u p d) = (portfolios d)(u \<mapsto> p)"
  "deposits (save_portfolio u p d) = deposits d"
  "withdrawals (save_portfolio u p d) = withdrawals d"
  "swaps (save_portfolio u p d) = swaps d"
  "affiliates (save_portfolio u p d) = affiliates d"
  "notifications (save_portfolio u p d) = notifications d"
  "merchant_apps (save_portfolio u p d) = merchant_apps d"
  "assets (save_portfolio u p d) = assets d"
  "trades (save_portfolio u p d) = trades d"
  by (simp_all add: save_portfolio_def)

lemma notify_fields [simp]:
  "portfolios (notify u m d) = portfolios d"
  "deposits (notify u m d) = deposits d"
  "withdrawals (notify u m d) = withdrawals d"
  "swaps (notify u m d) = swaps d"
  "affiliates (notify u m d) = affiliates d"
  "merchant_apps (notify u m d) = merchant_apps d"
  "assets (notify u m d) = assets d"
  "trades (notify u m d) = trades d"
  "notifications (notify u m d) = notifications d @ [\<lparr>note_user = u, note_message = m\<rparr>]"
  by (simp_all add: notify_def)

lemma notify_opt_fields [simp]:
  "portfolios (notify_opt w m d) = portfolios d"
  "deposits (notify_opt w m d) = deposits d"
  "withdrawals (notify_opt w m d) = withdrawals d"
  "swaps (notify_opt w m d) = swaps d"
  "affiliates (notify_opt w m d) = affiliates d"
  "merchant_apps (notify_opt w m d) = merchant_apps d"
  "assets (notify_opt w m d) = assets d"
  "trades (notify_opt w m d) = trades d"
  by (simp_all add: notify_opt_def split: option.splits)

lemma bonus_referrer_save_portfolio [simp]:
  "bonus_referrer (save_portfolio u p d) = bonus_referrer d"
  by (rule ext) (simp add: bonus_referrer_def)

lemma bonus_referrer_notify [simp]: "bonus_referrer (notify u m d) = bonus_referrer d"
  by (rule ext) (simp add: bonus_referrer_def)

lemma balance_of_save_portfolio [simp]:
  "balance_of (save_portfolio u p d) v = (if v = u then balance_usd p else balance_of d v)"
  by (simp add: balance_of_def save_portfolio_def)

lemma balance_of_notify [simp]: "balance_of (notify u m d) v = balance_of d v"
  by (simp add: balance_of_def notify_def)

lemma balance_of_notify_opt [simp]: "balance_of (notify_opt u m d) v = balance_of d v"
  by (simp add: notify_opt_def split: option.splits)

lemma balance_of_save_balance [simp]:
  "balance_of (save_balance u b d) v =
     (if v = u \<and> portfolios d u \<noteq> None then b else balance_of d v)"
  by (auto simp add: balance_of_def save_balance_def split: option.splits)

lemma balance_of_Some: "portfolios d u = Some p \<Longrightarrow> balance_of d u = balance_usd p"
  by (simp add: balance_of_def)



lemma balance_of_deposits_update [simp]:
  "balance_of (d\<lparr>deposits := x\<rparr>) v = balance_of d v"
  by (simp add: balance_of_def)

lemma bonus_referrer_deposits_update [simp]:
  "bonus_referrer (d\<lparr>deposits := x\<rparr>) = bonus_referrer d"
  by (rule ext) (simp add: bonus_referrer_def)



lemma deposits_referral_bonus [simp]:
  "deposits (process_referral_bonus self d) = deposits d"
  by (auto simp add: process_referral_bonus_def Let_def save_portfolio_def notify_def
      split: option.splits if_splits)

lemma deposits_Deposit_save [simp]:
  "deposits (Deposit_save pk self d) = (deposits d)(pk \<mapsto> self)"
  by (auto simp add: Deposit_save_def Let_def split: option.splits)

subsection \<open>Swap settlement\<close>



subsection \<open>Merchant-mediated deposits\<close>



lemma scenario_B_pending_eq:
  "scenario_B_pending =
     notify 1 (Deposit_submitted_user 1035)
       (notify 2 (Deposit_submitted_merchant 1035)
          (scenario_B\<lparr>deposits := [1 \<mapsto>
              \<lparr>dep_user = 1, dep_amount = 1000, dep_status = PENDING,
               dep_method = ''BANK_TRANSFER'', dep_transaction_id = ''TX-1'',
               dep_merchant = Some 2, merchant_action_required = True,
               deposit_notes = Some \<lparr>fee_percentage = 35 / 10, fee_amount = 35,
                                     total_amount_with_fee = 1035, base_amount = 1000\<rparr>\<rparr>],
            deposit_seq := 2\<rparr>))"
proof -
  have a: "dmul 1000 (7 / 200) = 35" by code_simp
  have b: "dadd 1000 35 = 1035" by code_simp
  show ?thesis
    by (simp add: scenario_B_pending_def deposit_funds_def scenario_B_def scenario_B_request_def
        frozen_def Deposit_create_def transaction_id_taken_def Let_def notify_def a b
        eval_nat_numeral)
qed


subsection \<open>Swap creation\<close>

text \<open>
  C10. \<^verbatim>\<open>swap_tokens\<close> refuses a request whose destination asset is its source asset: no
  swap is created and the database is unchanged. Symbols being unique, as the column is
  declared, a swap that is created starts from and returns to the asset \<^verbatim>\<open>USDT\<close>, and its
  destination asset is another asset, whose symbol is not \<^verbatim>\<open>USDT\<close>.
\<close>

theorem swap_tokens_destination_differs:
  assumes uniq: "\<forall>i j a b. assets d i = Some a \<and> assets d j = Some b \<and> symbol a = symbol b
                   \<longrightarrow> i = j"
  shows "(sd_from_asset data = sd_to_asset data \<longrightarrow>
            snd (swap_tokens now d user data) = d
            \<and> (\<forall>pk. fst (swap_tokens now d user data) \<noteq> Swap_created pk))
       \<and> (swap_tokens now d user data = (Swap_created pk, d') \<longrightarrow>
            (\<exists>sr from_a to_a back_id back_a.
               swaps d' pk = Some sr
               \<and> to_asset sr \<noteq> from_asset sr
               \<and> assets d (from_asset sr) = Some from_a \<and> symbol from_a = ''USDT''
               \<and> swap_back_asset sr = Some back_id
               \<and> assets d back_id = Some back_a \<and> symbol back_a = ''USDT''
               \<and> assets d (to_asset sr) = Some to_a \<and> symbol to_a \<noteq> ''USDT''))"
proof (intro conjI impI)
  assume same: "sd_from_asset data = sd_to_asset data"
  then show "snd (swap_tokens now d user data) = d"
    by (auto simp add: swap_tokens_def Let_def
        split: option.splits if_splits amount_input.splits time_input.splits prod.splits)
  from same show "\<forall>pk. fst (swap_tokens now d user data) \<noteq> Swap_created pk"
    by (auto simp add: swap_tokens_def Let_def
        split: option.splits if_splits amount_input.splits time_input.splits prod.splits)
next
  assume c: "swap_tokens now d user data = (Swap_created pk, d')"
  then obtain from_id to_id back_id from_a to_a back_a amt t where
    f: "sd_from_asset data = Some from_id" "sd_to_asset data = Some to_id"
       "sd_swap_back_asset data = Some back_id"
    and a: "assets d from_id = Some from_a" "symbol from_a = ''USDT''"
       "assets d to_id = Some to_a" "assets d back_id = Some back_a" "symbol back_a = ''USDT''"
       "from_id \<noteq> to_id"
    and sw: "swaps d' pk = Some \<lparr>swap_user = user, from_asset = from_id,
                to_asset = to_id, swap_back_asset = Some back_id,
                swap_amount = amt, swap_back_amount = 0,
                original_to_asset_price = price_usd to_a,
                swap_time = t, completed_at = None, swap_status = PENDING\<rparr>"
    by (auto simp add: swap_tokens_def Let_def SwapRequest_create_def save_balance_def
        split: option.splits if_splits amount_input.splits time_input.splits prod.splits)
  have "symbol to_a \<noteq> ''USDT''"
  proof
    assume "symbol to_a = ''USDT''"
    with a uniq have "to_id = from_id" by metis
    with a show False by simp
  qed
  with f a sw show "\<exists>sr from_a to_a back_id back_a.
               swaps d' pk = Some sr
               \<and> to_asset sr \<noteq> from_asset sr
               \<and> assets d (from_asset sr) = Some from_a \<and> symbol from_a = ''USDT''
               \<and> swap_back_asset sr = Some back_id
               \<and> assets d back_id = Some back_a \<and> symbol back_a = ''USDT''
               \<and> assets d (to_asset sr) = Some to_a \<and> symbol to_a \<noteq> ''USDT''"
    by auto
qed


theorem swap_tokens_destination_differs_witness:
  "sd_from_asset swap_request_same = sd_to_asset swap_request_same
   \<and> swap_tokens 1000 scenario_swap 7 swap_request_same = (Cannot_swap_same_asset, scenario_swap)
   \<and> fst (swap_tokens 1000 scenario_swap 7 swap_request_ok) = Swap_created 1
   \<and> map_option to_asset (swaps (snd (swap_tokens 1000 scenario_swap 7 swap_request_ok)) 1)
       = Some 2
   \<and> map_option from_asset (swaps (snd (swap_tokens 1000 scenario_swap 7 swap_request_ok)) 1)
       = Some 1
   \<and> map_option symbol (assets scenario_swap 2) \<noteq> Some ''USDT''"
proof -
  have u: "\<forall>i j a b. assets scenario_swap i = Some a \<and> assets scenario_swap j = Some b
        \<and> symbol a = symbol b \<longrightarrow> i = j"
    by (auto simp add: scenario_swap_def split: if_splits)
  have s1: "dsub 250 100 = 150" by code_simp
  have usdt: "usdt_exists scenario_swap"
    by (simp add: usdt_exists_def scenario_swap_def eval_nat_numeral)
  have same: "swap_tokens 1000 scenario_swap 7 swap_request_same
                = (Cannot_swap_same_asset, scenario_swap)"
    using usdt by (simp add: swap_tokens_def swap_request_same_def frozen_def)
      (simp add: scenario_swap_def)
  have ok: "fst (swap_tokens 1000 scenario_swap 7 swap_request_ok) = Swap_created 1"
    using usdt by (simp add: swap_tokens_def swap_request_ok_def frozen_def)
      (simp add: scenario_swap_def SwapRequest_create_def Let_def)
  note t = swap_tokens_destination_differs [OF u, where now = 1000 and user = 7]
  note t1 = t [where data = swap_request_same, THEN conjunct1, rule_format]
  note t2 = t [where data = swap_request_ok and pk = 1
      and d' = "snd (swap_tokens 1000 scenario_swap 7 swap_request_ok)",
      THEN conjunct2, rule_format]
  have c: "swap_tokens 1000 scenario_swap 7 swap_request_ok
             = (Swap_created 1, snd (swap_tokens 1000 scenario_swap 7 swap_request_ok))"
    using ok by (simp add: prod_eq_iff)
  from t2 [OF c] obtain sr to_a where
    sr: "swaps (snd (swap_tokens 1000 scenario_swap 7 swap_request_ok)) 1 = Some sr"
      "to_asset sr \<noteq> from_asset sr" "assets scenario_swap (to_asset sr) = Some to_a"
      "symbol to_a \<noteq> ''USDT''"
    by blast
  have ex: "map_option to_asset (swaps (snd (swap_tokens 1000 scenario_swap 7 swap_request_ok)) 1)
       = Some 2
     \<and> map_option from_asset (swaps (snd (swap_tokens 1000 scenario_swap 7 swap_request_ok)) 1)
       = Some 1"
    using usdt by (simp add: swap_tokens_def swap_request_ok_def frozen_def)
      (simp add: scenario_swap_def SwapRequest_create_def Let_def save_balance_def
        notify_def notify_opt_def first_staff_def)
  from sr ex have "map_option symbol (assets scenario_swap 2) \<noteq> Some ''USDT''"
    by auto
  with u same ok ex t1 show ?thesis
    by (simp add: swap_request_same_def)
qed

subsection \<open>Validation of the debiting operations\<close>

text \<open>
  Withdrawal creation and swap creation refuse a frozen account and an insufficient balance,
  and the merchant's approval of a deposit refuses an insufficient balance; every refusal
  leaves the database unchanged.
\<close>

lemma withdraw_funds_frozen:
  "frozen d user \<Longrightarrow> withdraw_funds d user form_data = (Account_suspended, d)"
  by (simp add: withdraw_funds_def)

lemma withdraw_funds_insufficient:
  assumes "\<not> frozen d user" and "wf_amount form_data = Some (Amount amount)" and "0 < amount"
    and "truthy_text (wf_method form_data)" and "portfolios d user = Some p"
    and "balance_usd p < amount"
  shows "withdraw_funds d user form_data = (Insufficient_balance, d)"
  using assms
  by (auto simp add: withdraw_funds_def truthy_amount_def truthy_text_def split: option.splits)

lemma withdraw_bank_failure_unchanged:
  "(\<forall>pk a b. fst (withdraw_bank d user form_data amount p) \<noteq> Withdrawal_created_p2p pk a b)
   \<Longrightarrow> snd (withdraw_bank d user form_data amount p) = d"
  by (auto simp add: withdraw_bank_def Let_def Withdrawal_create_def
      split: option.splits if_splits prod.splits)

lemma withdraw_internal_failure_unchanged:
  "fst (withdraw_internal d user form_data amount p) \<noteq> Transferred
   \<Longrightarrow> snd (withdraw_internal d user form_data amount p) = d"
  by (auto simp add: withdraw_internal_def Let_def Withdrawal_create_def
      split: option.splits if_splits prod.splits)

lemma withdraw_external_failure_unchanged:
  "(\<forall>pk. fst (withdraw_external d user form_data method amount p) \<noteq> Withdrawal_created pk)
   \<Longrightarrow> snd (withdraw_external d user form_data method amount p) = d"
  by (auto simp add: withdraw_external_def Let_def Withdrawal_create_def
      split: option.splits if_splits prod.splits)

lemma withdraw_funds_failure_unchanged:
  assumes "\<forall>pk a b. fst (withdraw_funds d user form_data) \<noteq> Withdrawal_created_p2p pk a b"
    and "fst (withdraw_funds d user form_data) \<noteq> Transferred"
    and "\<forall>pk. fst (withdraw_funds d user form_data) \<noteq> Withdrawal_created pk"
  shows "snd (withdraw_funds d user form_data) = d"
  using assms
  by (auto simp add: withdraw_funds_def withdraw_bank_failure_unchanged
      withdraw_internal_failure_unchanged withdraw_external_failure_unchanged
      split: option.splits if_splits amount_input.splits)

lemma swap_tokens_frozen:
  "frozen d user \<Longrightarrow> swap_tokens now d user data = (Account_suspended, d)"
  by (simp add: swap_tokens_def)

lemma swap_tokens_failure_unchanged:
  "(\<forall>pk. fst (swap_tokens now d user data) \<noteq> Swap_created pk)
   \<Longrightarrow> snd (swap_tokens now d user data) = d"
  by (auto simp add: swap_tokens_def Let_def SwapRequest_create_def
      split: option.splits if_splits amount_input.splits time_input.splits prod.splits)

lemma swap_tokens_success_sufficient:
  "swap_tokens now d user data = (Swap_created pk, d') \<Longrightarrow>
   \<not> frozen d user
   \<and> (\<exists>p amt. portfolios d user = Some p \<and> sd_swap_amount data = Some (Amount amt)
        \<and> amt \<le> balance_usd p \<and> balance_of d' user = dsub (balance_usd p) amt)"
  by (auto simp add: swap_tokens_def Let_def SwapRequest_create_def
      split: option.splits if_splits amount_input.splits time_input.splits prod.splits)

lemma merchant_approve_deposit_insufficient:
  assumes "deposits d pk = Some dep" and "dep_merchant dep = Some m"
    and "dep_status dep = PENDING" and "merchant_action_required dep"
    and "deposit_notes dep = Some info" and "portfolios d m = Some p"
    and "balance_usd p < base_amount info"
  shows "merchant_approve_deposit d m pk = (Insufficient_balance, d)"
  using assms by (simp add: merchant_approve_deposit_def)

lemma merchant_approve_deposit_failure_unchanged:
  "fst (merchant_approve_deposit d m pk) \<noteq> Deposit_approved
   \<Longrightarrow> snd (merchant_approve_deposit d m pk) = d"
  by (auto simp add: merchant_approve_deposit_def Let_def split: option.splits if_splits)

text \<open>
  C7. \<^verbatim>\<open>merchant_approve_deposit\<close> does not look at the frozen flag of the merchant it
  debits: in scenario B with the merchant's account frozen, the approval succeeds and the
  merchant's balance goes from 5000 to 4000.
\<close>

theorem merchant_approve_deposit_frozen_merchant:
  "frozen scenario_frozen_merchant 2
   \<and> balance_of scenario_frozen_merchant 2 = 5000
   \<and> fst (merchant_approve_deposit scenario_frozen_merchant 2 1) = Deposit_approved
   \<and> balance_of (snd (merchant_approve_deposit scenario_frozen_merchant 2 1)) 2 = 4000"
proof -
  have s1: "dsub 5000 1000 = 4000" by code_simp
  have s2: "dadd 0 1000 = 1000" by code_simp
  show ?thesis
    by (simp add: scenario_frozen_merchant_def scenario_B_pending_eq scenario_B_def frozen_def
        balance_of_def merchant_approve_deposit_def Let_def Deposit_save_def
        process_referral_bonus_def save_portfolio_def notify_def s1 s2)
qed

subsection \<open>Rejected and declined withdrawals\<close>

text \<open>
  The user's decline of a P2P withdrawal, and the admin action \<^verbatim>\<open>reject_withdrawals\<close>,
  credit the withdrawal's amount back to the sender and store \<open>REJECTED\<close>; a debit followed
  by a credit of the same amount restores a balance whenever both are representable.
\<close>

lemma user_decline_withdrawal_refunds:
  assumes "user_decline_withdrawal d u pk = (Withdrawal_declined, d')"
    and "withdrawals d pk = Some w"
  shows "balance_of d' u = dadd (balance_of d u) (wd_amount w)
         \<and> map_option wd_status (withdrawals d' pk) = Some REJECTED"
  using assms
  by (auto simp add: user_decline_withdrawal_def Let_def balance_of_Some
      split: option.splits if_splits)

lemma escrow_refund_exact:
  "exact b \<Longrightarrow> exact (b - a) \<Longrightarrow> dadd (dsub b a) a = b"
  by (simp add: exact_def dadd_def dsub_def)

lemma reject_one_refunds:
  assumes "portfolios d (wd_user w) = Some p"
  shows "balance_of (reject_one (pk, w) d) (wd_user w) = dadd (balance_of d (wd_user w)) (wd_amount w)
         \<and> map_option wd_status (withdrawals (reject_one (pk, w) d) pk) = Some REJECTED"
  using assms by (simp add: reject_one_def Let_def balance_of_Some)

text \<open>
  C3. The staff view \<^verbatim>\<open>reject_withdrawal\<close> stores \<open>REJECTED\<close> and refunds nothing: in
  scenario E the sender holds 100, the creation of the withdrawal escrows 40, and after the
  rejection the balance is still 60.
\<close>

theorem reject_withdrawal_keeps_escrow:
  "balance_of scenario_E 1 = 100
   \<and> fst (withdraw_funds scenario_E 1 scenario_E_form) = Withdrawal_created 1
   \<and> balance_of scenario_E_escrowed 1 = 60
   \<and> map_option wd_status (withdrawals scenario_E_escrowed 1) = Some PENDING
   \<and> fst (reject_withdrawal scenario_E_escrowed 1) = Withdrawal_rejected_by_admin
   \<and> map_option wd_status (withdrawals (snd (reject_withdrawal scenario_E_escrowed 1)) 1)
       = Some REJECTED
   \<and> balance_of (snd (reject_withdrawal scenario_E_escrowed 1)) 1 = 60"
proof -
  have s1: "dsub 100 40 = 60" by code_simp
  have w: "withdraw_funds scenario_E 1 scenario_E_form =
      (Withdrawal_created 1,
       scenario_E\<lparr>portfolios := [1 \<mapsto> \<lparr>balance_usd = 60, is_merchant = False,
                      initial_deposit_amount = None, account_number = ''100000000001'',
                      is_frozen = False\<rparr>],
                   withdrawals := [1 \<mapsto> \<lparr>wd_user = 1, wd_amount = 40, wd_status = PENDING,
                      wd_method = ''BYBIT'',
                      to_address = Some (Plain_address ''user@example.org''), chain = None,
                      wd_merchant = None, user_confirmation_required = False,
                      withdrawal_notes = None\<rparr>],
                   withdrawal_seq := 2\<rparr>)"
    by (simp add: withdraw_funds_def withdraw_external_def scenario_E_def scenario_E_form_def
        frozen_def truthy_amount_def truthy_text_def Withdrawal_create_def Let_def
        save_balance_def notify_opt_def first_staff_def s1 eval_nat_numeral)
  show ?thesis
    unfolding scenario_E_escrowed_def w
    by (simp add: reject_withdrawal_def balance_of_def scenario_E_def)
qed

subsection \<open>Column types\<close>



subsection \<open>Referral bonus\<close>

lemma once_refl [simp]: "once u d d"
  by (simp add: once_def)


lemma once_same:
  "affiliates d' = affiliates d \<Longrightarrow> bonus_count d' u = bonus_count d u \<Longrightarrow> once u d d'"
  by (simp add: once_def funded_def)

lemma funded_fields [simp]:
  "funded (save_portfolio v p d) u = funded d u"
  "funded (save_balance v b d) u = funded d u"
  "funded (notify v m d) u = funded d u"
  "funded (notify_opt w m d) u = funded d u"
  by (simp_all add: funded_def save_balance_def split: option.splits)

lemma bonus_count_fields [simp]:
  "bonus_count (save_portfolio v p d) u = bonus_count d u"
  "bonus_count (save_balance v b d) u = bonus_count d u"
  "bonus_count (notify v m d) u = bonus_count d u + (if is_bonus u m then 1 else 0)"
  by (simp_all add: bonus_count_def save_balance_def split: option.splits)

lemma bonus_count_notify_opt [simp]:
  "\<not> is_bonus u m \<Longrightarrow> bonus_count (notify_opt w m d) u = bonus_count d u"
  by (simp add: notify_opt_def split: option.splits)


lemma once_deposits_update [simp]: "once u d (d'\<lparr>deposits := x\<rparr>) = once u d d'"
  "once u (d\<lparr>deposits := x\<rparr>) d' = once u d d'"
  by (simp_all add: once_def funded_def bonus_count_def)


lemma once_wrap [simp]:
  "once u d (save_portfolio v p d') = once u d d'"
  "once u d (save_balance v b d') = once u d d'"
  "\<not> is_bonus u m \<Longrightarrow> once u d (notify v m d') = once u d d'"
  "\<not> is_bonus u m \<Longrightarrow> once u d (notify_opt w m d') = once u d d'"
  by (simp_all add: once_def)







lemma once_other_tables [simp]:
  "once u d (d'\<lparr>withdrawals := w\<rparr>) = once u d d'"
  "once u d (d'\<lparr>withdrawal_seq := n\<rparr>) = once u d d'"
  "once u d (d'\<lparr>swaps := s\<rparr>) = once u d d'"
  "once u d (d'\<lparr>swap_seq := n\<rparr>) = once u d d'"
  "once u d (d'\<lparr>trades := t\<rparr>) = once u d d'"
  "once u d (d'\<lparr>deposit_seq := n\<rparr>) = once u d d'"
  by (simp_all add: once_def funded_def bonus_count_def)




















subsection \<open>Credits and debits of the settlement operations\<close>








subsection \<open>Sign of the swap profit\<close>

text \<open>
  Rounding to the context's 28 digits changes a value by at most 5 parts in \<open>10\<^sup>2\<^sup>8\<close>.
\<close>

lemma ndigits_pos: "0 < ndigits n"
  by (subst ndigits.simps) simp

lemma ndigits_bounds: "0 < n \<Longrightarrow> 10 ^ (ndigits n - 1) \<le> n \<and> n < 10 ^ ndigits n"
proof (induction n rule: ndigits.induct)
  case (1 n)
  show ?case
  proof (cases "n < 10")
    case True
    with "1.prems" show ?thesis
      by (subst (1 2) ndigits.simps) simp
  next
    case False
    then have pos: "0 < n div 10" by simp
    let ?k = "ndigits (n div 10)"
    from "1.IH" [OF False pos] have lo: "10 ^ (?k - 1) \<le> n div 10" and hi: "n div 10 < 10 ^ ?k"
      by simp_all
    have k: "0 < ?k" by (rule ndigits_pos)
    have nd: "ndigits n = Suc ?k"
      using False by (subst ndigits.simps) simp
    have "10 ^ ?k = 10 * 10 ^ (?k - 1)"
      using k by (cases ?k) simp_all
    also have "\<dots> \<le> 10 * (n div 10)"
      using lo by simp
    also have "\<dots> \<le> n" by simp
    finally have a: "10 ^ ?k \<le> n" .
    have "n < 10 * (n div 10) + 10" by presburger
    also have "\<dots> \<le> 10 * 10 ^ ?k"
      using hi by simp
    finally have b: "n < 10 ^ Suc ?k" by simp
    from a b nd show ?thesis by simp
  qed
qed

lemma round_half_even_error: "\<bar>of_int (round_half_even y) - y\<bar> \<le> 1 / 2"
proof -
  have a: "of_int \<lfloor>y\<rfloor> \<le> y" and b: "y < of_int \<lfloor>y\<rfloor> + 1"
    by linarith+
  show ?thesis
    unfolding round_half_even_def Let_def
    using a b by (simp add: abs_if) linarith
qed

lemma adjusted_bounds:
  assumes "x \<noteq> 0"
  shows "10 powi adjusted x \<le> \<bar>x\<bar> \<and> \<bar>x\<bar> < 10 powi (adjusted x + 1)"
proof -
  obtain p q where pq: "quotient_of \<bar>x\<bar> = (p, q)" by (cases "quotient_of \<bar>x\<bar>")
  have q: "0 < q" using pq by (rule quotient_of_denom_pos)
  have x: "\<bar>x\<bar> = of_int p / of_int q" using pq by (rule quotient_of_div)
  have ax: "0 < \<bar>x\<bar>" using assms by simp
  have p: "0 < p"
    using ax q unfolding x by (simp add: zero_less_divide_iff)
  let ?dp = "ndigits (nat p)" and ?dq = "ndigits (nat q)"
  let ?k = "int ?dp - int ?dq"
  have "10 ^ (?dp - 1) \<le> nat p" "nat p < 10 ^ ?dp"
    using ndigits_bounds [of "nat p"] p by simp_all
  then have "(of_nat (10 ^ (?dp - 1)) :: rat) \<le> of_nat (nat p)"
    and "(of_nat (nat p) :: rat) < of_nat (10 ^ ?dp)"
    by (simp_all only: of_nat_le_iff of_nat_less_iff)
  then have plo: "(10::rat) ^ (?dp - 1) \<le> of_int p" and phi: "of_int p < (10::rat) ^ ?dp"
    using p by simp_all
  have "10 ^ (?dq - 1) \<le> nat q" "nat q < 10 ^ ?dq"
    using ndigits_bounds [of "nat q"] q by simp_all
  then have "(of_nat (10 ^ (?dq - 1)) :: rat) \<le> of_nat (nat q)"
    and "(of_nat (nat q) :: rat) < of_nat (10 ^ ?dq)"
    by (simp_all only: of_nat_le_iff of_nat_less_iff)
  then have qlo: "(10::rat) ^ (?dq - 1) \<le> of_int q" and qhi: "of_int q < (10::rat) ^ ?dq"
    using q by simp_all
  have dp: "0 < ?dp" and dq: "0 < ?dq" by (rule ndigits_pos)+
  have e1: "(10::rat) ^ ?dp = 10 * 10 ^ (?dp - 1)"
    using dp by (cases ?dp) simp_all
  have e2: "(10::rat) ^ ?dq = 10 * 10 ^ (?dq - 1)"
    using dq by (cases ?dq) simp_all
  have k0: "(10::rat) powi ?k = 10 ^ ?dp / 10 ^ ?dq"
    by (simp add: power_int_diff)
  have k1: "(10::rat) powi (?k + 1) = 10 * (10 ^ ?dp / 10 ^ ?dq)"
    by (simp add: power_int_add k0)
  have k2: "(10::rat) powi (?k - 1) = 10 ^ ?dp / 10 ^ ?dq / 10"
    by (simp add: power_int_diff [of 10 ?k 1] k0)
  have m1: "(10::rat) ^ (?dp - 1) * of_int q < of_int p * 10 ^ ?dq"
    using plo qhi q by (intro mult_le_less_imp_less) simp_all
  have m2: "of_int p * (10::rat) ^ (?dq - 1) < 10 ^ ?dp * of_int q"
    using phi qlo p by (intro mult_less_le_imp_less) simp_all
  have lo: "10 powi (?k - 1) < \<bar>x\<bar>"
    unfolding x k2 using m1 q by (simp add: e1 field_simps)
  have hi: "\<bar>x\<bar> < 10 powi (?k + 1)"
    unfolding x k1 using m2 q by (simp add: e2 field_simps)
  have adj: "adjusted x = (if 10 powi ?k \<le> \<bar>x\<bar> then ?k else ?k - 1)"
    by (simp add: adjusted_def pq Let_def)
  show ?thesis
  proof (cases "10 powi ?k \<le> \<bar>x\<bar>")
    case True
    with adj hi show ?thesis by simp
  next
    case False
    with adj lo show ?thesis by simp
  qed
qed


lemma dec_fix_error: "\<bar>dec_fix x - x\<bar> \<le> \<bar>x\<bar> * (5 / 10 ^ 28)"
proof (cases "x = 0")
  case True
  then show ?thesis by (simp add: dec_fix_def)
next
  case False
  let ?s = "(10::rat) powi (adjusted x - (prec - 1))"
  have s: "0 < ?s" by simp
  have fx: "dec_fix x = of_int (round_half_even (x / ?s)) * ?s"
    using False by (simp add: dec_fix_def Let_def)
  have "dec_fix x - x = (of_int (round_half_even (x / ?s)) - x / ?s) * ?s"
    using s by (simp add: fx field_simps)
  then have "\<bar>dec_fix x - x\<bar> = \<bar>of_int (round_half_even (x / ?s)) - x / ?s\<bar> * ?s"
    using s by (simp add: abs_mult)
  also have "\<dots> \<le> 1 / 2 * ?s"
    using round_half_even_error [of "x / ?s"] s by (intro mult_right_mono) simp_all
  also have "?s = 10 powi adjusted x / 10 ^ 27"
    by (simp add: prec_def power_int_diff)
  also have "1 / 2 * (10 powi adjusted x / 10 ^ 27) \<le> 1 / 2 * (\<bar>x\<bar> / 10 ^ 27)"
    using adjusted_bounds [OF False] by (simp add: divide_right_mono)
  also have "\<dots> = \<bar>x\<bar> * (5 / 10 ^ 28)" by simp
  finally show ?thesis .
qed

lemma dec_fix_lower: "0 \<le> x \<Longrightarrow> x * (1 - 5 / 10 ^ 28) \<le> dec_fix x"
  using dec_fix_error [of x] by (simp add: abs_if algebra_simps split: if_splits)

lemma dec_fix_upper: "0 \<le> x \<Longrightarrow> dec_fix x \<le> x * (1 + 5 / 10 ^ 28)"
  using dec_fix_error [of x] by (simp add: abs_if algebra_simps split: if_splits)

lemma dec_fix_pos: "0 < x \<Longrightarrow> 0 < dec_fix x"
proof -
  assume x: "0 < x"
  have "0 < x * (1 - 5 / 10 ^ 28)" using x by simp
  also have "\<dots> \<le> dec_fix x" using x by (intro dec_fix_lower) simp
  finally show ?thesis .
qed


lemma grid_gap:
  fixes g :: rat
  assumes g: "0 < g" and a: "a = of_int i * g" and b: "b = of_int j * g" and ab: "a < b"
  shows "a + g \<le> b"
proof -
  have "of_int i * g < of_int j * g" using a b ab by simp
  then have "(of_int i :: rat) < of_int j" using g by (simp add: mult_less_cancel_right)
  then have "i + 1 \<le> j" by simp
  then have "(of_int (i + 1) :: rat) \<le> of_int j" by (simp only: of_int_le_iff)
  then have "of_int (i + 1) * g \<le> of_int j * g" using g by (simp add: mult_right_mono)
  then show ?thesis using a b by (simp add: algebra_simps)
qed

lemma common_grid:
  assumes dp: "has_decimal_places 10 x" and x: "0 < x" "x < 10 ^ 10"
    and sd: "has_significant_digits 17 y" and y: "0 < y"
  shows "\<exists>g i j. 0 < g \<and> x = of_int i * g \<and> y = of_int j * g \<and> min x y < g * 10 ^ 20"
proof -
  define e where "e = adjusted y - 16"
  define m where "m = \<lfloor>y / 10 powi e\<rfloor>"
  define n where "n = \<lfloor>x * 10 ^ 10\<rfloor>"
  have "of_int m = y / 10 powi e"
    using sd y by (auto simp add: has_significant_digits_def Let_def e_def m_def)
  then have ym: "y = of_int m * 10 powi e" by simp
  have "of_int n = x * 10 ^ 10"
    using dp by (auto simp add: has_decimal_places_def n_def)
  then have xn: "x = of_int n / 10 ^ 10" by simp
  have e17: "e + 17 = adjusted y + 1" by (simp add: e_def)
  have "y < 10 powi (adjusted y + 1)"
    using adjusted_bounds [of y] y by simp
  then have yhi: "y < 10 powi (e + 17)"
    by (simp only: e17)
  show ?thesis
  proof (cases "- 10 \<le> e")
    case True
    define k where "k = nat (e + 10)"
    have ek: "e = int k - 10" using True by (simp add: k_def)
    have pe: "(10::rat) powi e = 10 ^ k / 10 ^ 10"
      by (simp add: ek power_int_diff)
    have "y = of_int (m * 10 ^ k) * (1 / 10 ^ 10)" by (simp add: ym pe)
    moreover have "x = of_int n * (1 / 10 ^ 10)" by (simp add: xn)
    moreover have "min x y < (1 / 10 ^ 10) * 10 ^ 20" using x by simp
    moreover have "(0::rat) < 1 / 10 ^ 10" by simp
    ultimately show ?thesis by blast
  next
    case False
    define k where "k = nat (- 10 - e)"
    have ek: "- 10 = e + int k" using False by (simp add: k_def)
    have "(10::rat) powi (- 10) = 10 powi e * 10 ^ k"
      by (simp only: ek) (simp add: power_int_add)
    then have pe: "1 / (10::rat) ^ 10 = 10 powi e * 10 ^ k"
      by (simp add: power_int_minus field_simps)
    have "x = of_int n * (1 / 10 ^ 10)" by (simp add: xn)
    also have "\<dots> = of_int n * (10 powi e * 10 ^ k)" by (simp only: pe)
    also have "\<dots> = of_int (n * 10 ^ k) * 10 powi e" by simp
    finally have "x = of_int (n * 10 ^ k) * 10 powi e" .
    moreover have "(0::rat) < 10 powi e" by simp
    moreover have "min x y < 10 powi e * 10 ^ 20"
    proof -
      have "min x y \<le> y" by simp
      also have "y < 10 powi e * 10 ^ 17" using yhi by (simp add: power_int_add)
      also have "(10::rat) powi e * 10 ^ 17 \<le> 10 powi e * 10 ^ 20"
        by (intro mult_left_mono) simp_all
      finally show ?thesis .
    qed
    ultimately show ?thesis using ym by blast
  qed
qed

lemma price_gap:
  assumes dp: "has_decimal_places 10 x" and x: "0 < x" "x < 10 ^ 10"
    and sd: "has_significant_digits 17 y" and y: "0 < y"
  shows "(x < y \<longrightarrow> x * (1 + 1 / 10 ^ 20) \<le> y) \<and> (y < x \<longrightarrow> y * (1 + 1 / 10 ^ 20) \<le> x)"
proof -
  from common_grid [OF dp x sd y] obtain g i j
    where g: "0 < g" and xi: "x = of_int i * g" and yj: "y = of_int j * g"
      and m: "min x y < g * 10 ^ 20" by blast
  have up: "x * (1 + 1 / 10 ^ 20) \<le> y" if lt: "x < y"
  proof -
    have "x < g * 10 ^ 20" using m lt by simp
    then have "x / 10 ^ 20 < g" by (simp add: field_simps)
    moreover have "x + g \<le> y" using g xi yj lt by (rule grid_gap)
    ultimately show ?thesis by (simp add: algebra_simps)
  qed
  have down: "y * (1 + 1 / 10 ^ 20) \<le> x" if lt: "y < x"
  proof -
    have "y < g * 10 ^ 20" using m lt by simp
    then have "y / 10 ^ 20 < g" by (simp add: field_simps)
    moreover have "y + g \<le> x" using g yj xi lt by (rule grid_gap)
    ultimately show ?thesis by (simp add: algebra_simps)
  qed
  from up down show ?thesis by blast
qed


lemma round_trip_bounds:
  assumes a: "0 < a" and p: "0 < p" and x: "0 < x" and y: "0 < y"
  defines "to_amount \<equiv> dec_fix (dmul a p / x)"
  defines "back_amount \<equiv> dec_fix (dmul to_amount y / p)"
  shows "a * (y / x) * (1 - 5 / 10 ^ 28) ^ 4 \<le> back_amount"
    and "back_amount \<le> a * (y / x) * (1 + 5 / 10 ^ 28) ^ 4"
proof -
  define c :: rat where "c = 1 - 5 / 10 ^ 28"
  define u :: rat where "u = 1 + 5 / 10 ^ 28"
  have c: "0 < c" and u: "0 < u" by (simp_all add: c_def u_def)
  define x1 where "x1 = dmul a p"
  define x3 where "x3 = dmul to_amount y"
  have ap: "0 < a * p" using a p by simp
  have x1: "0 < x1" unfolding x1_def dmul_def using ap by (rule dec_fix_pos)
  have q1: "0 < x1 / x" using x1 x by simp
  have x2: "0 < to_amount" unfolding to_amount_def x1_def [symmetric] using q1 by (rule dec_fix_pos)
  have ty: "0 < to_amount * y" using x2 y by simp
  have x3: "0 < x3" unfolding x3_def dmul_def using ty by (rule dec_fix_pos)
  have q3: "0 < x3 / p" using x3 p by simp
  have l1: "a * p * c \<le> x1" unfolding x1_def dmul_def c_def using ap by (intro dec_fix_lower) simp
  have l2: "x1 / x * c \<le> to_amount"
    unfolding to_amount_def x1_def [symmetric] c_def using q1 by (intro dec_fix_lower) simp
  have l3: "to_amount * y * c \<le> x3" unfolding x3_def dmul_def c_def using ty by (intro dec_fix_lower) simp
  have l4: "x3 / p * c \<le> back_amount"
    unfolding back_amount_def x3_def [symmetric] c_def using q3 by (intro dec_fix_lower) simp
  have h1: "x1 \<le> a * p * u" unfolding x1_def dmul_def u_def using ap by (intro dec_fix_upper) simp
  have h2: "to_amount \<le> x1 / x * u"
    unfolding to_amount_def x1_def [symmetric] u_def using q1 by (intro dec_fix_upper) simp
  have h3: "x3 \<le> to_amount * y * u" unfolding x3_def dmul_def u_def using ty by (intro dec_fix_upper) simp
  have h4: "back_amount \<le> x3 / p * u"
    unfolding back_amount_def x3_def [symmetric] u_def using q3 by (intro dec_fix_upper) simp
  have "a * (y / x) * c ^ 4 = a * p * c / x * c * y * c / p * c"
    using p x by (simp add: power4_eq_xxxx field_simps)
  also have "\<dots> \<le> x1 / x * c * y * c / p * c"
    using l1 c x y p by (intro mult_right_mono divide_right_mono) simp_all
  also have "\<dots> \<le> to_amount * y * c / p * c"
    using l2 c y p by (intro mult_right_mono divide_right_mono) simp_all
  also have "\<dots> \<le> x3 / p * c"
    using l3 c p by (intro mult_right_mono divide_right_mono) simp_all
  also have "\<dots> \<le> back_amount" by (rule l4)
  finally show "a * (y / x) * (1 - 5 / 10 ^ 28) ^ 4 \<le> back_amount" by (simp only: c_def)
  have "back_amount \<le> x3 / p * u" by (rule h4)
  also have "\<dots> \<le> to_amount * y * u / p * u"
    using h3 u p by (intro mult_right_mono divide_right_mono) simp_all
  also have "\<dots> \<le> x1 / x * u * y * u / p * u"
    using h2 u y p by (intro mult_right_mono divide_right_mono) simp_all
  also have "\<dots> \<le> a * p * u / x * u * y * u / p * u"
    using h1 u x y p by (intro mult_right_mono divide_right_mono) simp_all
  also have "\<dots> = a * (y / x) * u ^ 4"
    using p x by (simp add: power4_eq_xxxx field_simps)
  finally show "back_amount \<le> a * (y / x) * (1 + 5 / 10 ^ 28) ^ 4" by (simp only: u_def)
qed

lemma rounding_below_gap: "(1::rat) < (1 + 1 / 10 ^ 20) * (1 - 5 / 10 ^ 28) ^ 4"
  by (simp add: power4_eq_xxxx)

lemma rounding_above_gap: "(1 + 5 / 10 ^ 28) ^ 4 < (1::rat) + 1 / 10 ^ 20"
  by (simp add: power4_eq_xxxx)

lemma round_trip_sign:
  assumes a: "0 < a" and p: "0 < p" and x: "0 < x" "x < 10 ^ 10" and y: "0 < y"
    and dp: "has_decimal_places 10 x" and sd: "has_significant_digits 17 y"
  defines "to_amount \<equiv> dec_fix (dmul a p / x)"
  defines "back_amount \<equiv> dec_fix (dmul to_amount y / p)"
  shows "(x < y \<longrightarrow> a < back_amount) \<and> (y < x \<longrightarrow> back_amount < a)"
proof -
  note gap = price_gap [OF dp x sd y]
  note lo = round_trip_bounds(1) [OF a p x(1) y, folded to_amount_def, folded back_amount_def]
  note hi = round_trip_bounds(2) [OF a p x(1) y, folded to_amount_def, folded back_amount_def]
  have up: "a < back_amount" if lt: "x < y"
  proof -
    have "x * (1 + 1 / 10 ^ 20) \<le> y" using gap lt by blast
    then have "1 + 1 / 10 ^ 20 \<le> y / x" using x(1) by (simp add: pos_le_divide_eq mult.commute)
    then have "(1 + 1 / 10 ^ 20) * (1 - 5 / 10 ^ 28) ^ 4 \<le> y / x * (1 - 5 / 10 ^ 28) ^ 4"
      by (intro mult_right_mono) simp_all
    with rounding_below_gap have "1 < y / x * (1 - 5 / 10 ^ 28) ^ 4" by (rule less_le_trans)
    then have "a * 1 < a * (y / x * (1 - 5 / 10 ^ 28) ^ 4)" using a by (simp only: mult_less_cancel_left_pos)
    also have "\<dots> = a * (y / x) * (1 - 5 / 10 ^ 28) ^ 4" by (simp only: mult.assoc)
    also have "\<dots> \<le> back_amount" by (rule lo)
    finally show ?thesis by simp
  qed
  have down: "back_amount < a" if lt: "y < x"
  proof -
    have "y * (1 + 1 / 10 ^ 20) \<le> x" using gap lt by blast
    then have "y / x * (1 + 1 / 10 ^ 20) \<le> 1" using x(1) by (simp add: field_simps)
    have yx: "0 < y / x" using x(1) y by simp
    have "back_amount \<le> a * (y / x) * (1 + 5 / 10 ^ 28) ^ 4" by (rule hi)
    also have "\<dots> = a * (y / x * (1 + 5 / 10 ^ 28) ^ 4)" by (simp only: mult.assoc)
    also have "\<dots> < a * 1"
    proof -
      have "y / x * (1 + 5 / 10 ^ 28) ^ 4 < y / x * (1 + 1 / 10 ^ 20)"
        using yx rounding_above_gap by (simp only: mult_less_cancel_left_pos)
      also have "\<dots> \<le> 1" by fact
      finally show ?thesis using a by (simp only: mult_less_cancel_left_pos)
    qed
    finally show ?thesis by simp
  qed
  from up down show ?thesis by blast
qed


lemma dec_fix_neg: "x < 0 \<Longrightarrow> dec_fix x < 0"
proof -
  assume x: "x < 0"
  have "dec_fix x \<le> x * (1 - 5 / 10 ^ 28)"
    using dec_fix_error [of x] x by (simp add: abs_if algebra_simps split: if_splits)
  also have "\<dots> < 0" using x by (simp add: mult_less_0_iff)
  finally show ?thesis .
qed

lemma settle_swap_result:
  assumes settle: "settle_swap now d swap_id sr = Inr d'"
    and fa: "assets d (from_asset sr) = Some from_a"
    and bid: "swap_back_asset sr = Some back_id"
    and ba: "assets d back_id = Some back_a"
    and ta: "assets d (to_asset sr) = Some to_a"
    and o: "original_to_asset_price sr \<noteq> 0"
    and b: "price_usd back_a \<noteq> 0"
  defines "to_amount \<equiv> dec_fix (dmul (swap_amount sr) (price_usd from_a) / original_to_asset_price sr)"
  defines "back_amount \<equiv> dec_fix (dmul to_amount (price_usd to_a) / price_usd back_a)"
  defines "profit_loss \<equiv> dsub back_amount (swap_amount sr)"
  defines "percentage \<equiv>
             (if 0 < swap_amount sr then dmul (dec_fix (profit_loss / swap_amount sr)) 100 else 0)"
  shows "map_option swap_back_amount (swaps d' swap_id) = Some back_amount"
    and "notifications d' = notifications d @
           [\<lparr>note_user = swap_user sr,
             note_message = (if 0 < profit_loss
                             then Swap_profit back_amount profit_loss percentage
                             else Swap_loss back_amount profit_loss percentage)\<rparr>,
            \<lparr>note_user = swap_user sr, note_message = Portfolio_updated\<rparr>]"
  using settle fa bid ba ta o b
  unfolding to_amount_def back_amount_def profit_loss_def percentage_def
  by (auto simp add: settle_swap_def ddiv_def Let_def save_balance_def notify_def
      split: option.splits)

text \<open>
  C8. A settled swap of a positive amount at positive prices, whose return asset is priced
  as its source asset: when the destination asset's price at settlement is above
  \<^verbatim>\<open>original_to_asset_price\<close>, \<open>return_amount > swap_amount\<close>, the profit
  \<open>return_amount - swap_amount\<close> is positive and the user is notified of a profit; when it
  is below, \<open>return_amount < swap_amount\<close>, the difference is negative and the user is notified
  of a loss. The prices are values of their columns: \<^verbatim>\<open>original_to_asset_price\<close> a
  \<^verbatim>\<open>DecimalField(20, 10)\<close>, \<^verbatim>\<open>price_usd\<close> a float; two such prices that differ do so by more
  than the four roundings of the settlement can cancel. The witness settles scenario C at
  2.20 (110 returned for 100) and at 1.80 (90 returned for 100).
\<close>

theorem swap_profit_sign:
  assumes run: "process_swap now d swap_id force_process = (Swap_completed, d')"
    and sr: "swaps d swap_id = Some sr"
    and fa: "assets d (from_asset sr) = Some from_a"
    and bid: "swap_back_asset sr = Some back_id"
    and ba: "assets d back_id = Some back_a"
    and ta: "assets d (to_asset sr) = Some to_a"
    and amount: "0 < swap_amount sr"
    and from_price: "0 < price_usd from_a"
    and original: "0 < original_to_asset_price sr"
    and latest: "0 < price_usd to_a"
    and flat: "price_usd back_a = price_usd from_a"
    and oc: "fits (column_type SwapRequest_original_to_asset_price) (original_to_asset_price sr)"
    and lc: "fits (column_type SyntheticAsset_price_usd) (price_usd to_a)"
  shows "\<exists>return_amount profit_loss percentage.
           map_option swap_back_amount (swaps d' swap_id) = Some return_amount
         \<and> profit_loss = dsub return_amount (swap_amount sr)
         \<and> (original_to_asset_price sr < price_usd to_a \<longrightarrow>
              swap_amount sr < return_amount \<and> 0 < profit_loss
              \<and> notifications d' = notifications d @
                   [\<lparr>note_user = swap_user sr,
                     note_message = Swap_profit return_amount profit_loss percentage\<rparr>,
                    \<lparr>note_user = swap_user sr, note_message = Portfolio_updated\<rparr>])
         \<and> (price_usd to_a < original_to_asset_price sr \<longrightarrow>
              return_amount < swap_amount sr \<and> profit_loss < 0
              \<and> notifications d' = notifications d @
                   [\<lparr>note_user = swap_user sr,
                     note_message = Swap_loss return_amount profit_loss percentage\<rparr>,
                    \<lparr>note_user = swap_user sr, note_message = Portfolio_updated\<rparr>])"
proof -
  define to_amount where
    "to_amount = dec_fix (dmul (swap_amount sr) (price_usd from_a) / original_to_asset_price sr)"
  define back_amount where
    "back_amount = dec_fix (dmul to_amount (price_usd to_a) / price_usd from_a)"
  define profit_loss where "profit_loss = dsub back_amount (swap_amount sr)"
  define percentage where
    "percentage = (if 0 < swap_amount sr then dmul (dec_fix (profit_loss / swap_amount sr)) 100 else 0)"
  from run sr have settle: "settle_swap now d swap_id sr = Inr d'"
    by (auto simp add: process_swap_def split: if_splits sum.splits)
  have o: "original_to_asset_price sr \<noteq> 0" and b: "price_usd back_a \<noteq> 0"
    using original from_price flat by simp_all
  have res1: "map_option swap_back_amount (swaps d' swap_id) = Some back_amount"
    using settle_swap_result(1) [OF settle fa bid ba ta o b]
    by (simp add: back_amount_def to_amount_def flat)
  have res2: "notifications d' = notifications d @
           [\<lparr>note_user = swap_user sr,
             note_message = (if 0 < profit_loss
                             then Swap_profit back_amount profit_loss percentage
                             else Swap_loss back_amount profit_loss percentage)\<rparr>,
            \<lparr>note_user = swap_user sr, note_message = Portfolio_updated\<rparr>]"
    using settle_swap_result(2) [OF settle fa bid ba ta o b]
    by (simp add: back_amount_def to_amount_def profit_loss_def percentage_def flat)
  have dp: "has_decimal_places 10 (original_to_asset_price sr)"
    and lt: "original_to_asset_price sr < 10 ^ 10"
    using oc original by simp_all
  have sd: "has_significant_digits 17 (price_usd to_a)"
    using lc by simp
  have sgn: "(original_to_asset_price sr < price_usd to_a \<longrightarrow> swap_amount sr < back_amount)
      \<and> (price_usd to_a < original_to_asset_price sr \<longrightarrow> back_amount < swap_amount sr)"
    using round_trip_sign [OF amount from_price original lt latest dp sd]
    by (simp add: back_amount_def to_amount_def)
  have up: "swap_amount sr < back_amount \<and> 0 < profit_loss"
    if "original_to_asset_price sr < price_usd to_a"
  proof -
    have "swap_amount sr < back_amount" using sgn that by blast
    moreover from this have "0 < profit_loss"
      unfolding profit_loss_def dsub_def by (intro dec_fix_pos) simp
    ultimately show ?thesis by blast
  qed
  have down: "back_amount < swap_amount sr \<and> profit_loss < 0"
    if "price_usd to_a < original_to_asset_price sr"
  proof -
    have "back_amount < swap_amount sr" using sgn that by blast
    moreover from this have "profit_loss < 0"
      unfolding profit_loss_def dsub_def by (intro dec_fix_neg) simp
    ultimately show ?thesis by blast
  qed
  show ?thesis
  proof (rule exI [of _ back_amount], rule exI [of _ profit_loss],
      rule exI [of _ percentage], intro conjI impI)
    show "map_option swap_back_amount (swaps d' swap_id) = Some back_amount" by (rule res1)
    show "profit_loss = dsub back_amount (swap_amount sr)" by (rule profit_loss_def)
  next
    assume h: "original_to_asset_price sr < price_usd to_a"
    show "swap_amount sr < back_amount" using up [OF h] by blast
    show "0 < profit_loss" using up [OF h] by blast
    show "notifications d' = notifications d @
                   [\<lparr>note_user = swap_user sr,
                     note_message = Swap_profit back_amount profit_loss percentage\<rparr>,
                    \<lparr>note_user = swap_user sr, note_message = Portfolio_updated\<rparr>]"
      using res2 up [OF h] by simp
  next
    assume h: "price_usd to_a < original_to_asset_price sr"
    show "back_amount < swap_amount sr" using down [OF h] by blast
    show "profit_loss < 0" using down [OF h] by blast
    show "notifications d' = notifications d @
                   [\<lparr>note_user = swap_user sr,
                     note_message = Swap_loss back_amount profit_loss percentage\<rparr>,
                    \<lparr>note_user = swap_user sr, note_message = Portfolio_updated\<rparr>]"
      using res2 down [OF h] by simp
  qed
qed


theorem swap_profit_sign_witness:
  "(\<exists>return_amount profit_loss percentage.
      map_option swap_back_amount (swaps (snd (process_swap 1000 scenario_C 1 True)) 1)
        = Some return_amount
    \<and> 100 < return_amount \<and> 0 < profit_loss
    \<and> notifications (snd (process_swap 1000 scenario_C 1 True)) =
         [\<lparr>note_user = 7, note_message = Swap_profit return_amount profit_loss percentage\<rparr>,
          \<lparr>note_user = 7, note_message = Portfolio_updated\<rparr>])
   \<and> (\<exists>return_amount profit_loss percentage.
      map_option swap_back_amount (swaps (snd (process_swap 1000 scenario_C_fall 1 True)) 1)
        = Some return_amount
    \<and> return_amount < 100 \<and> profit_loss < 0
    \<and> notifications (snd (process_swap 1000 scenario_C_fall 1 True)) =
         [\<lparr>note_user = 7, note_message = Swap_loss return_amount profit_loss percentage\<rparr>,
          \<lparr>note_user = 7, note_message = Portfolio_updated\<rparr>])"
proof -
  let ?sr = "\<lparr>swap_user = 7, from_asset = 1, to_asset = 2, swap_back_asset = Some 1,
              swap_amount = 100, swap_back_amount = 0, original_to_asset_price = 2,
              swap_time = 600, completed_at = None, swap_status = PENDING\<rparr>"
  let ?usdt = "\<lparr>symbol = ''USDT'', price_usd = 1\<rparr>"
  let ?up = "\<lparr>symbol = ''MNT'', price_usd = 11 / 5\<rparr>"
  let ?down = "\<lparr>symbol = ''MNT'', price_usd = 9 / 5\<rparr>"
  have s1: "dmul 100 1 = 100" by code_simp
  have s2: "dec_fix 50 = 50" by code_simp
  have s3: "dmul 50 (11 / 5) = 110" by code_simp
  have s4: "dmul 50 (9 / 5) = 90" by code_simp
  have up_run: "process_swap 1000 scenario_C 1 True
                  = (Swap_completed, snd (process_swap 1000 scenario_C 1 True))"
    by (simp add: process_swap_def settle_swap_def scenario_C_def ddiv_def Let_def s1 s2 s3)
  have down_run: "process_swap 1000 scenario_C_fall 1 True
                  = (Swap_completed, snd (process_swap 1000 scenario_C_fall 1 True))"
    by (simp add: process_swap_def settle_swap_def scenario_C_fall_def scenario_C_def ddiv_def
        Let_def s1 s2 s4)
  have sr: "swaps scenario_C 1 = Some ?sr" "swaps scenario_C_fall 1 = Some ?sr"
    by (simp_all add: scenario_C_fall_def scenario_C_def)
  have fa: "assets scenario_C (from_asset ?sr) = Some ?usdt"
    "assets scenario_C_fall (from_asset ?sr) = Some ?usdt"
    by (simp_all add: scenario_C_fall_def scenario_C_def)
  have bid: "swap_back_asset ?sr = Some 1" by simp
  have ba: "assets scenario_C 1 = Some ?usdt" "assets scenario_C_fall 1 = Some ?usdt"
    by (simp_all add: scenario_C_fall_def scenario_C_def)
  have ta: "assets scenario_C (to_asset ?sr) = Some ?up"
    "assets scenario_C_fall (to_asset ?sr) = Some ?down"
    by (simp_all add: scenario_C_fall_def scenario_C_def)
  have amount: "0 < swap_amount ?sr" by simp
  have from_price: "0 < price_usd ?usdt" by simp
  have original: "0 < original_to_asset_price ?sr" by simp
  have latest: "0 < price_usd ?up" "0 < price_usd ?down" by simp_all
  have flat: "price_usd ?usdt = price_usd ?usdt" by simp
  have oc: "fits (column_type SwapRequest_original_to_asset_price) (original_to_asset_price ?sr)"
    by (simp add: has_decimal_places_def)
  have f1: "has_significant_digits 17 (11 / 5)" by code_simp
  have f2: "has_significant_digits 17 (9 / 5)" by code_simp
  have lc: "fits (column_type SyntheticAsset_price_usd) (price_usd ?up)"
    "fits (column_type SyntheticAsset_price_usd) (price_usd ?down)"
    by (simp_all add: f1 f2)
  have n: "notifications scenario_C = []" "notifications scenario_C_fall = []"
    by (simp_all add: scenario_C_fall_def scenario_C_def)
  from swap_profit_sign [OF up_run sr(1) fa(1) bid ba(1) ta(1) amount from_price original
      latest(1) flat oc lc(1)]
  have up: "\<exists>return_amount profit_loss percentage.
      map_option swap_back_amount (swaps (snd (process_swap 1000 scenario_C 1 True)) 1)
        = Some return_amount
    \<and> 100 < return_amount \<and> 0 < profit_loss
    \<and> notifications (snd (process_swap 1000 scenario_C 1 True)) =
         [\<lparr>note_user = 7, note_message = Swap_profit return_amount profit_loss percentage\<rparr>,
          \<lparr>note_user = 7, note_message = Portfolio_updated\<rparr>]"
    by (simp add: n) blast
  from swap_profit_sign [OF down_run sr(2) fa(2) bid ba(2) ta(2) amount from_price original
      latest(2) flat oc lc(2)]
  have down: "\<exists>return_amount profit_loss percentage.
      map_option swap_back_amount (swaps (snd (process_swap 1000 scenario_C_fall 1 True)) 1)
        = Some return_amount
    \<and> return_amount < 100 \<and> profit_loss < 0
    \<and> notifications (snd (process_swap 1000 scenario_C_fall 1 True)) =
         [\<lparr>note_user = 7, note_message = Swap_loss return_amount profit_loss percentage\<rparr>,
          \<lparr>note_user = 7, note_message = Portfolio_updated\<rparr>]"
    by (simp add: n) blast
  from up down show ?thesis by (rule conjI)
qed

end
